theory Spec2Isabelle
  imports Main "HOL-Library.Word"
begin

unbundle bit_operations_syntax

section \<open>Machine types and protocol constants\<close>

type_synonym u8 = "8 word"
type_synonym u16 = "16 word"
type_synonym u32 = "32 word"
type_synonym s8 = "8 word"
type_synonym s64 = "64 word"

text \<open>
  Modelled from the spec: the header knot/knot_protocol.h is not under src/. The spec
  names four notification options (OnTimer, OnLowerThreshold, OnUpperThreshold,
  OnChange) and four value kinds (Int32, Float32, Bool, Raw); proxy.c tests the options
  as bits of the u8 \<open>event_flags\<close> and switches on the u8 \<open>value_type\<close>. The
  numerals are those of the KNoT protocol; the development only relies on the four
  option bits being distinct single bits and on the four kind codes being distinct.
\<close>

definition KNOT_EVT_FLAG_NONE :: u8 where
  "KNOT_EVT_FLAG_NONE = 0x00"

definition KNOT_EVT_FLAG_TIME :: u8 where
  "KNOT_EVT_FLAG_TIME = 0x01"

definition KNOT_EVT_FLAG_LOWER_THRESHOLD :: u8 where
  "KNOT_EVT_FLAG_LOWER_THRESHOLD = 0x02"

definition KNOT_EVT_FLAG_UPPER_THRESHOLD :: u8 where
  "KNOT_EVT_FLAG_UPPER_THRESHOLD = 0x04"

definition KNOT_EVT_FLAG_CHANGE :: u8 where
  "KNOT_EVT_FLAG_CHANGE = 0x08"

definition KNOT_VALUE_TYPE_INT :: u8 where
  "KNOT_VALUE_TYPE_INT = 1"

definition KNOT_VALUE_TYPE_FLOAT :: u8 where
  "KNOT_VALUE_TYPE_FLOAT = 2"

definition KNOT_VALUE_TYPE_BOOL :: u8 where
  "KNOT_VALUE_TYPE_BOOL = 3"

definition KNOT_VALUE_TYPE_RAW :: u8 where
  "KNOT_VALUE_TYPE_RAW = 4"

text \<open>\<open>-EINVAL\<close> as the \<open>s8_t\<close> that \<open>proxy_write\<close> returns (errno 22).\<close>

definition EINVAL :: s8 where
  "EINVAL = 22"

section \<open>The value union\<close>

text \<open>
  \<open>knot_value_type\<close> is a union of \<open>val_i\<close> (s32), \<open>val_f\<close> (float), \<open>val_b\<close>
  (bool) and \<open>raw\<close> (a byte array). It is kept as its bytes, lowest address first; the
  scalar members are views of the leading bytes (little endian, as on the boards the SDK
  targets), so \<open>val_i\<close> and \<open>val_f\<close> read the same four bytes.
\<close>

type_synonym knot_value_type = "u8 list"

fun le_word :: "u8 list \<Rightarrow> u32" where
  "le_word [] = 0"
| "le_word (b # bs) = ucast b + 256 * le_word bs"

definition le_bytes :: "u32 \<Rightarrow> u8 list" where
  "le_bytes w = [ucast w, ucast (drop_bit 8 w), ucast (drop_bit 16 w), ucast (drop_bit 24 w)]"

definition val_b :: "knot_value_type \<Rightarrow> bool" where
  "val_b v = (case v of [] \<Rightarrow> False | b # _ \<Rightarrow> b \<noteq> 0)"

definition val_i :: "knot_value_type \<Rightarrow> u32" where
  "val_i v = le_word (take 4 v)"

definition val_f :: "knot_value_type \<Rightarrow> u32" where
  "val_f v = le_word (take 4 v)"

definition set_val_b :: "bool \<Rightarrow> knot_value_type \<Rightarrow> knot_value_type" where
  "set_val_b b v = (if b then 1 else 0) # drop 1 v"

definition set_val_i :: "u32 \<Rightarrow> knot_value_type \<Rightarrow> knot_value_type" where
  "set_val_i w v = le_bytes w @ drop 4 v"

definition set_val_f :: "u32 \<Rightarrow> knot_value_type \<Rightarrow> knot_value_type" where
  "set_val_f w v = le_bytes w @ drop 4 v"

text \<open>
  The object behind the \<open>const void *value\<close> of \<open>knot_proxy_value_set_basic\<close> is given
  as its bytes. Reading a \<open>bool\<close> needs one byte and reading an \<open>s32_t\<close> or a \<open>float\<close>
  four; a shorter object makes the read undefined, which is \<open>None\<close>.
\<close>

definition load_bool :: "u8 list \<Rightarrow> bool option" where
  "load_bool m = (case m of [] \<Rightarrow> None | b # _ \<Rightarrow> Some (b \<noteq> 0))"

definition load_32 :: "u8 list \<Rightarrow> u32 option" where
  "load_32 m = (if length m < 4 then None else Some (le_word (take 4 m)))"

section \<open>IEEE 754 binary32 comparisons\<close>

text \<open>
  A \<open>float\<close> is carried as its 32 bits. For the comparisons of proxy.c it is decoded to
  \<open>FNaN\<close> or to \<open>FNum k\<close>, where \<open>k\<close> is the represented number times \<open>2 ^ 149\<close> (an
  integer for every binary32 value; the infinities decode to \<open>\<plusminus> 2 ^ 277\<close>, beyond
  every finite value, and both zeros to \<open>0\<close>).
\<close>

datatype c_float = FNaN | FNum int

definition f32_decode :: "u32 \<Rightarrow> c_float" where
  "f32_decode w =
     (let e = unat w div 2 ^ 23 mod 256;
          m = unat w mod 2 ^ 23;
          mag = (if e = 0 then int m else int (2 ^ 23 + m) * 2 ^ (e - 1))
      in if e = 255 \<and> m \<noteq> 0 then FNaN
         else if 2 ^ 31 \<le> unat w then FNum (- mag) else FNum mag)"

text \<open>
  The conversion of an \<open>s32_t\<close> to \<open>float\<close> (the usual arithmetic conversion when an int
  meets a float operand): the nearest value with 24 significant bits, ties to even.
\<close>

definition excess_bits :: "nat \<Rightarrow> nat" where
  "excess_bits n = length (filter (\<lambda>j. 2 ^ j \<le> n) [24, 25, 26, 27, 28, 29, 30, 31])"

definition round_to_24 :: "nat \<Rightarrow> nat" where
  "round_to_24 n =
     (let k = excess_bits n; q = n div 2 ^ k; r = n mod 2 ^ k
      in if 2 ^ k < 2 * r \<or> (2 * r = 2 ^ k \<and> odd q) then (q + 1) * 2 ^ k else q * 2 ^ k)"

definition s32_to_float :: "u32 \<Rightarrow> c_float" where
  "s32_to_float i =
     (if sint i < 0 then FNum (- (int (round_to_24 (nat (- sint i))) * 2 ^ 149))
      else FNum (int (round_to_24 (nat (sint i))) * 2 ^ 149))"

fun float_ne :: "c_float \<Rightarrow> c_float \<Rightarrow> bool" where
  "float_ne (FNum a) (FNum b) = (a \<noteq> b)"
| "float_ne _ _ = True"

fun float_gt :: "c_float \<Rightarrow> c_float \<Rightarrow> bool" where
  "float_gt (FNum a) (FNum b) = (b < a)"
| "float_gt _ _ = False"

fun float_lt :: "c_float \<Rightarrow> c_float \<Rightarrow> bool" where
  "float_lt (FNum a) (FNum b) = (a < b)"
| "float_lt _ _ = False"

section \<open>The channel record\<close>

record knot_schema =
  type_id :: u16
  unit' :: u8
  value_type :: u8
  name :: string

record knot_config =
  event_flags :: u8
  time_sec :: u16
  lower_limit :: knot_value_type
  upper_limit :: knot_value_type

text \<open>
  A \<open>knot_callback_t\<close> is a function pointer; it is kept as an address, \<open>None\<close> for
  \<open>NULL\<close>. What the application's function does with the channel it is handed is a
  parameter of the operations that call it.
\<close>

type_synonym knot_callback_t = nat

record knot_proxy =
  id' :: u8
  schema :: knot_schema
  value' :: knot_value_type
  send :: bool
  wait_resp :: bool
  upper_flag :: bool
  lower_flag :: bool
  olen :: u8
  rlen :: u8
  config :: knot_config
  last_timeout :: u32
  poll_cb :: "knot_callback_t option"
  changed_cb :: "knot_callback_t option"

section \<open>The trigger conditions (the check macros of proxy.c)\<close>

definition check_bool_change :: "knot_proxy \<Rightarrow> bool \<Rightarrow> bool" where
  "check_bool_change proxy bval =
     (KNOT_EVT_FLAG_CHANGE AND event_flags (config proxy) \<noteq> 0
      \<and> bval \<noteq> val_b (value' proxy))"

definition check_int_change :: "knot_proxy \<Rightarrow> u32 \<Rightarrow> bool" where
  "check_int_change proxy s32val =
     (KNOT_EVT_FLAG_CHANGE AND event_flags (config proxy) \<noteq> 0
      \<and> s32val \<noteq> val_i (value' proxy))"

text \<open>
  The same macro \<open>check_int_change\<close> expanded with a \<open>float\<close> argument, as the
  \<open>KNOT_VALUE_TYPE_FLOAT\<close> case of \<open>knot_proxy_value_set_basic\<close> does: the comparison
  \<open>fval != proxy->value.val_i\<close> converts the \<open>s32_t\<close> member to \<open>float\<close>.
\<close>

definition check_int_change_float :: "knot_proxy \<Rightarrow> u32 \<Rightarrow> bool" where
  "check_int_change_float proxy fval =
     (KNOT_EVT_FLAG_CHANGE AND event_flags (config proxy) \<noteq> 0
      \<and> float_ne (f32_decode fval) (s32_to_float (val_i (value' proxy))))"

definition check_int_upper_threshold :: "knot_proxy \<Rightarrow> u32 \<Rightarrow> bool" where
  "check_int_upper_threshold proxy s32val =
     (KNOT_EVT_FLAG_UPPER_THRESHOLD AND event_flags (config proxy) \<noteq> 0
      \<and> sint (val_i (upper_limit (config proxy))) < sint s32val)"

definition check_int_lower_threshold :: "knot_proxy \<Rightarrow> u32 \<Rightarrow> bool" where
  "check_int_lower_threshold proxy s32val =
     (KNOT_EVT_FLAG_LOWER_THRESHOLD AND event_flags (config proxy) \<noteq> 0
      \<and> sint s32val < sint (val_i (lower_limit (config proxy))))"

text \<open>\<open>check_float_change\<close> is defined in proxy.c and used nowhere.\<close>

definition check_float_change :: "knot_proxy \<Rightarrow> u32 \<Rightarrow> bool" where
  "check_float_change proxy fval =
     (KNOT_EVT_FLAG_CHANGE AND event_flags (config proxy) \<noteq> 0
      \<and> float_ne (f32_decode fval) (f32_decode (val_f (value' proxy))))"

definition check_float_upper_threshold :: "knot_proxy \<Rightarrow> u32 \<Rightarrow> bool" where
  "check_float_upper_threshold proxy fval =
     (KNOT_EVT_FLAG_UPPER_THRESHOLD AND event_flags (config proxy) \<noteq> 0
      \<and> float_gt (f32_decode fval) (f32_decode (val_f (upper_limit (config proxy)))))"

definition check_float_lower_threshold :: "knot_proxy \<Rightarrow> u32 \<Rightarrow> bool" where
  "check_float_lower_threshold proxy fval =
     (KNOT_EVT_FLAG_LOWER_THRESHOLD AND event_flags (config proxy) \<noteq> 0
      \<and> float_lt (f32_decode fval) (f32_decode (val_f (lower_limit (config proxy)))))"

section \<open>check_timeout\<close>

text \<open>
  \<open>k_uptime\<close> is what \<open>k_uptime_get()\<close> returns at the call (milliseconds, s64); the
  assignment to the u32 \<open>current_time\<close> truncates it, and \<open>elapsed_time\<close> is a u32
  difference. \<open>time_sec * 1000\<close> is computed in \<open>int\<close> and cannot overflow.
\<close>

definition check_timeout :: "s64 \<Rightarrow> knot_proxy \<Rightarrow> knot_proxy \<times> bool" where
  "check_timeout k_uptime proxy =
     (if KNOT_EVT_FLAG_TIME AND event_flags (config proxy) = 0 then (proxy, False)
      else
        let current_time = (ucast k_uptime :: u32);
            elapsed_time = current_time - last_timeout proxy
        in if unat (time_sec (config proxy)) * 1000 \<le> unat elapsed_time
           then (proxy\<lparr>last_timeout := current_time\<rparr>, True)
           else (proxy, False))"

section \<open>knot_proxy_value_set_basic\<close>

text \<open>
  The handle is \<open>None\<close> for a \<open>NULL\<close> pointer and otherwise the channel it points to;
  the channel after the call is returned with the result. \<open>None\<close> as the whole result
  is undefined behaviour (a read past the candidate object).
\<close>

definition knot_proxy_value_set_basic ::
  "s64 \<Rightarrow> knot_proxy option \<Rightarrow> u8 list \<Rightarrow> (knot_proxy option \<times> bool) option" where
  "knot_proxy_value_set_basic k_uptime handle mem =
     (case handle of
        None \<Rightarrow> Some (None, False)
      | Some proxy0 \<Rightarrow>
          (case check_timeout k_uptime proxy0 of (proxy, timeout) \<Rightarrow>
             if value_type (schema proxy) = KNOT_VALUE_TYPE_BOOL then
               (case load_bool mem of
                  None \<Rightarrow> None
                | Some bval \<Rightarrow>
                    let change = check_bool_change proxy bval
                    in if send proxy \<or> timeout \<or> change
                       then Some (Some (proxy\<lparr>olen := 1,
                                              value' := set_val_b bval (value' proxy),
                                              send := wait_resp proxy\<rparr>), True)
                       else Some (Some proxy, False))
             else if value_type (schema proxy) = KNOT_VALUE_TYPE_INT then
               (case load_32 mem of
                  None \<Rightarrow> None
                | Some s32val \<Rightarrow>
                    let change = check_int_change proxy s32val;
                        upper = check_int_upper_threshold proxy s32val;
                        lower = check_int_lower_threshold proxy s32val;
                        proxy1 =
                          (if send proxy \<or> timeout \<or> change
                              \<or> (upper \<and> upper_flag proxy = False)
                              \<or> (lower \<and> lower_flag proxy = False)
                           then (proxy\<lparr>olen := 4,
                                        value' := set_val_i s32val (value' proxy),
                                        send := wait_resp proxy\<rparr>, True)
                           else (proxy, False))
                    in Some (Some ((fst proxy1)\<lparr>upper_flag := upper, lower_flag := lower\<rparr>),
                             snd proxy1))
             else if value_type (schema proxy) = KNOT_VALUE_TYPE_FLOAT then
               (case load_32 mem of
                  None \<Rightarrow> None
                | Some fval \<Rightarrow>
                    let change = check_int_change_float proxy fval;
                        upper = check_float_upper_threshold proxy fval;
                        lower = check_float_lower_threshold proxy fval;
                        proxy1 =
                          (if send proxy \<or> timeout \<or> change
                              \<or> (upper \<and> upper_flag proxy = False)
                              \<or> (lower \<and> lower_flag proxy = False)
                           then (proxy\<lparr>olen := 4,
                                        value' := set_val_f fval (value' proxy),
                                        send := wait_resp proxy\<rparr>, True)
                           else (proxy, False))
                    in Some (Some ((fst proxy1)\<lparr>upper_flag := upper, lower_flag := lower\<rparr>),
                             snd proxy1))
             else Some (Some proxy, False)))"

section \<open>knot_proxy_value_set_string\<close>

text \<open>
  Modelled from the spec: \<open>KNOT_DATA_RAW_SIZE\<close> and \<open>KNOT_PROTOCOL_DATA_NAME_LEN\<close>
  (knot_protocol.h) and the validators \<open>knot_schema_is_valid\<close> and
  \<open>knot_config_is_valid\<close> (the protocol library) are not under src/. The spec calls
  them the buffer capacity \<open>N\<close> and the external schema validator; they are parameters
  of the model, collected in one record.
\<close>

record knot_env =
  KNOT_DATA_RAW_SIZE :: nat
  KNOT_PROTOCOL_DATA_NAME_LEN :: nat
  knot_schema_is_valid :: "u16 \<Rightarrow> u8 \<Rightarrow> u8 \<Rightarrow> int"
  knot_config_is_valid :: "u8 \<Rightarrow> u8 \<Rightarrow> u16 \<Rightarrow> knot_value_type \<Rightarrow> knot_value_type \<Rightarrow> int"

text \<open>
  \<open>check_raw_change\<close>: \<open>&&\<close> and \<open>||\<close> short-circuit, so \<open>memcmp\<close> runs only when
  the change flag is set and \<open>rawlen\<close> equals the stored length. It then reads \<open>rawlen\<close>
  bytes of both buffers; reading past either one is undefined (\<open>None\<close>).
\<close>

definition check_raw_change :: "knot_proxy \<Rightarrow> u8 list \<Rightarrow> int \<Rightarrow> bool option" where
  "check_raw_change proxy rawval rawlen =
     (if KNOT_EVT_FLAG_CHANGE AND event_flags (config proxy) = 0 then Some False
      else if uint (rlen proxy) \<noteq> rawlen then Some True
      else if length (value' proxy) < nat rawlen \<or> length rawval < nat rawlen then None
      else Some (take (nat rawlen) (value' proxy) \<noteq> take (nat rawlen) rawval))"

text \<open>
  \<open>mem\<close> is the caller's buffer behind \<open>const char *value\<close> and \<open>len\<close> the \<open>int\<close>
  length. \<open>memcpy\<close> with a negative length, or with more bytes than either buffer
  holds, is undefined (\<open>None\<close>).
\<close>

definition knot_proxy_value_set_string ::
  "knot_env \<Rightarrow> s64 \<Rightarrow> knot_proxy option \<Rightarrow> u8 list \<Rightarrow> int
     \<Rightarrow> (knot_proxy option \<times> bool) option" where
  "knot_proxy_value_set_string env k_uptime handle mem len =
     (case handle of
        None \<Rightarrow> Some (None, False)
      | Some proxy0 \<Rightarrow>
          if value_type (schema proxy0) \<noteq> KNOT_VALUE_TYPE_RAW then Some (Some proxy0, False)
          else
            (case check_timeout k_uptime proxy0 of (proxy, timeout) \<Rightarrow>
               (case check_raw_change proxy mem len of
                  None \<Rightarrow> None
                | Some change \<Rightarrow>
                    if \<not> send proxy \<and> \<not> change \<and> \<not> timeout then Some (Some proxy, False)
                    else
                      let len1 = min (int (KNOT_DATA_RAW_SIZE env)) len
                      in if len1 < 0 \<or> length mem < nat len1
                            \<or> length (value' proxy) < nat len1 then None
                         else Some (Some (proxy\<lparr>olen := of_int len1,
                                                rlen := of_int len1,
                                                value' := take (nat len1) mem
                                                          @ drop (nat len1) (value' proxy),
                                                send := wait_resp proxy\<rparr>), True))))"

section \<open>The channel table\<close>

text \<open>
  \<open>proxy_pool\<close> is the static array and \<open>last_id\<close> the static u8 beside it;
  \<open>CONFIG_KNOT_THING_DATA_MAX\<close> is the length of the array.
\<close>

record proxy_state =
  proxy_pool :: "knot_proxy list"
  last_id :: u8

definition CONFIG_KNOT_THING_DATA_MAX :: "proxy_state \<Rightarrow> nat" where
  "CONFIG_KNOT_THING_DATA_MAX s = length (proxy_pool s)"

text \<open>A \<open>struct knot_proxy\<close> with every byte zero, as \<open>memset\<close> and static storage leave it.\<close>

definition zero_proxy :: "knot_env \<Rightarrow> knot_proxy" where
  "zero_proxy env =
     \<lparr>id' = 0,
      schema = \<lparr>type_id = 0, unit' = 0, value_type = 0,
                name = replicate (KNOT_PROTOCOL_DATA_NAME_LEN env) (CHR 0x00)\<rparr>,
      value' = replicate (max 4 (KNOT_DATA_RAW_SIZE env)) 0,
      send = False, wait_resp = False, upper_flag = False, lower_flag = False,
      olen = 0, rlen = 0,
      config = \<lparr>event_flags = 0, time_sec = 0,
                lower_limit = replicate (max 4 (KNOT_DATA_RAW_SIZE env)) 0,
                upper_limit = replicate (max 4 (KNOT_DATA_RAW_SIZE env)) 0\<rparr>,
      last_timeout = 0, poll_cb = None, changed_cb = None\<rparr>"

text \<open>The static storage at program start: a zeroed array of \<open>n\<close> slots, \<open>last_id = 0xff\<close>.\<close>

definition static_storage :: "knot_env \<Rightarrow> nat \<Rightarrow> proxy_state" where
  "static_storage env n = \<lparr>proxy_pool = replicate n (zero_proxy env), last_id = 0xff\<rparr>"

definition proxy_init :: "knot_env \<Rightarrow> proxy_state \<Rightarrow> proxy_state" where
  "proxy_init env s =
     s\<lparr>proxy_pool := map (\<lambda>p. p\<lparr>id' := 0xff\<rparr>) (map (\<lambda>_. zero_proxy env) (proxy_pool s))\<rparr>"

section \<open>knot_proxy_register\<close>

text \<open>
  The C function returns \<open>NULL\<close> on each of its three failures and tells them apart
  only in the log line; the model tags the failure with the kind the log line reports.
  On success the returned pointer is \<open>&proxy_pool[id]\<close>, the slot of \<open>id\<close> in the
  returned table. The name is \<open>None\<close> for a \<open>NULL\<close> pointer and otherwise the
  characters before the terminating NUL, so \<open>strlen\<close> is \<open>length\<close>.
\<close>

datatype register_error = CapacityExceeded | DuplicateId | InvalidSchema

definition knot_proxy_register ::
  "knot_env \<Rightarrow> proxy_state \<Rightarrow> u8 \<Rightarrow> string option \<Rightarrow> u16 \<Rightarrow> u8 \<Rightarrow> u8
     \<Rightarrow> knot_callback_t option \<Rightarrow> knot_callback_t option
     \<Rightarrow> register_error + proxy_state" where
  "knot_proxy_register env s ident name_ptr tid vtype un changed poll =
     (if CONFIG_KNOT_THING_DATA_MAX s \<le> unat ident then Inl CapacityExceeded
      else if id' (proxy_pool s ! unat ident) \<noteq> 0xff then Inl DuplicateId
      else if knot_schema_is_valid env tid vtype un \<noteq> 0 \<or> name_ptr = None
        then Inl InvalidSchema
      else
        let proxy = proxy_pool s ! unat ident;
            nm = the name_ptr;
            k = min (KNOT_PROTOCOL_DATA_NAME_LEN env) (length nm);
            proxy1 = proxy
              \<lparr>id' := ident,
               schema := \<lparr>type_id = tid, unit' = un, value_type = vtype,
                          name = take k nm @ drop k (name (schema proxy))\<rparr>,
               send := False, upper_flag := False, lower_flag := False, olen := 0,
               config := (config proxy)\<lparr>event_flags := KNOT_EVT_FLAG_NONE\<rparr>,
               poll_cb := poll, changed_cb := changed\<rparr>
        in Inr (s\<lparr>proxy_pool := (proxy_pool s)[unat ident := proxy1],
                  last_id := (if last_id s < ident \<or> last_id s = 0xff
                              then ident else last_id s)\<rparr>))"

definition proxy_get_last_id :: "proxy_state \<Rightarrow> u8" where
  "proxy_get_last_id s = last_id s"

section \<open>knot_proxy_set_config\<close>

text \<open>
  The variable arguments after \<open>id\<close>, in order. An \<open>int\<close> argument carries its 32 bits;
  a \<open>double\<close> argument is given by the binary32 pattern that \<open>(float)\<close> narrows it to.
  \<open>va_arg\<close> past the last argument, or at a type other than the argument's, is undefined
  (\<open>None\<close>).
\<close>

datatype va_arg = VaInt u32 | VaDouble u32

text \<open>
  The locals \<open>event_flags\<close>, \<open>timeout_sec\<close>, \<open>lower_limit\<close> and \<open>upper_limit\<close> of the
  loop are carried in a \<open>knot_config\<close>. The loop ends at the event \<open>0\<close> with them
  (\<open>Done\<close>) or returns false at an unknown event (\<open>InvalidFlags\<close>).
\<close>

datatype loop_result = Done knot_config | InvalidFlags

fun read_events :: "u8 \<Rightarrow> knot_config \<Rightarrow> va_arg list \<Rightarrow> loop_result option" where
  "read_events vtype acc [] = None"
| "read_events vtype acc (VaDouble d # rest) = None"
| "read_events vtype acc (VaInt e # rest) =
     (if (ucast e :: u8) = KNOT_EVT_FLAG_NONE then Some (Done acc)
      else if (ucast e :: u8) = KNOT_EVT_FLAG_CHANGE then
        read_events vtype (acc\<lparr>event_flags := event_flags acc OR KNOT_EVT_FLAG_CHANGE\<rparr>) rest
      else if (ucast e :: u8) = KNOT_EVT_FLAG_TIME then
        (case rest of
           VaInt t # rest1 \<Rightarrow>
             read_events vtype
               (acc\<lparr>time_sec := ucast t,
                    event_flags := event_flags acc OR KNOT_EVT_FLAG_TIME\<rparr>) rest1
         | _ \<Rightarrow> None)
      else if (ucast e :: u8) = KNOT_EVT_FLAG_UPPER_THRESHOLD then
        (if vtype = KNOT_VALUE_TYPE_INT then
           (case rest of
              VaInt x # rest1 \<Rightarrow>
                read_events vtype
                  (acc\<lparr>upper_limit := set_val_i x (upper_limit acc),
                       event_flags := event_flags acc OR KNOT_EVT_FLAG_UPPER_THRESHOLD\<rparr>) rest1
            | _ \<Rightarrow> None)
         else if vtype = KNOT_VALUE_TYPE_FLOAT then
           (case rest of
              VaDouble x # rest1 \<Rightarrow>
                read_events vtype
                  (acc\<lparr>upper_limit := set_val_f x (upper_limit acc),
                       event_flags := event_flags acc OR KNOT_EVT_FLAG_UPPER_THRESHOLD\<rparr>) rest1
            | _ \<Rightarrow> None)
         else
           read_events vtype
             (acc\<lparr>event_flags := event_flags acc OR KNOT_EVT_FLAG_UPPER_THRESHOLD\<rparr>) rest)
      else if (ucast e :: u8) = KNOT_EVT_FLAG_LOWER_THRESHOLD then
        (if vtype = KNOT_VALUE_TYPE_INT then
           (case rest of
              VaInt x # rest1 \<Rightarrow>
                read_events vtype
                  (acc\<lparr>lower_limit := set_val_i x (lower_limit acc),
                       event_flags := event_flags acc OR KNOT_EVT_FLAG_LOWER_THRESHOLD\<rparr>) rest1
            | _ \<Rightarrow> None)
         else if vtype = KNOT_VALUE_TYPE_FLOAT then
           (case rest of
              VaDouble x # rest1 \<Rightarrow>
                read_events vtype
                  (acc\<lparr>lower_limit := set_val_f x (lower_limit acc),
                       event_flags := event_flags acc OR KNOT_EVT_FLAG_LOWER_THRESHOLD\<rparr>) rest1
            | _ \<Rightarrow> None)
         else
           read_events vtype
             (acc\<lparr>event_flags := event_flags acc OR KNOT_EVT_FLAG_LOWER_THRESHOLD\<rparr>) rest)
      else Some InvalidFlags)"

text \<open>
  The locals before the loop: no flag, period \<open>0\<close>, and both limits with \<open>val_i = 0\<close>.
  The bytes of the two local unions past \<open>val_i\<close> are indeterminate in C and proxy.c
  never reads them; the model fixes them at zero.
\<close>

definition initial_locals :: "knot_env \<Rightarrow> knot_config" where
  "initial_locals env =
     \<lparr>event_flags = KNOT_EVT_FLAG_NONE, time_sec = 0,
      lower_limit = set_val_i 0 (replicate (max 4 (KNOT_DATA_RAW_SIZE env)) 0),
      upper_limit = set_val_i 0 (replicate (max 4 (KNOT_DATA_RAW_SIZE env)) 0)\<rparr>"

definition knot_proxy_set_config ::
  "knot_env \<Rightarrow> proxy_state \<Rightarrow> u8 \<Rightarrow> va_arg list \<Rightarrow> (proxy_state \<times> bool) option" where
  "knot_proxy_set_config env s ident event_args =
     (if CONFIG_KNOT_THING_DATA_MAX s \<le> unat ident then Some (s, False)
      else
        let proxy = proxy_pool s ! unat ident
        in if id' proxy \<noteq> ident then Some (s, False)
           else
             (case read_events (value_type (schema proxy)) (initial_locals env) event_args of
                None \<Rightarrow> None
              | Some InvalidFlags \<Rightarrow> Some (s, False)
              | Some (Done acc) \<Rightarrow>
                  if knot_config_is_valid env (event_flags acc) (value_type (schema proxy))
                       (time_sec acc) (lower_limit acc) (upper_limit acc) \<noteq> 0
                  then Some (s, False)
                  else
                    let c0 = config proxy;
                        c1 = (if event_flags acc AND KNOT_EVT_FLAG_UPPER_THRESHOLD \<noteq> 0
                              then c0\<lparr>upper_limit := upper_limit acc\<rparr> else c0);
                        c2 = (if event_flags acc AND KNOT_EVT_FLAG_LOWER_THRESHOLD \<noteq> 0
                              then c1\<lparr>lower_limit := lower_limit acc\<rparr> else c1);
                        c3 = c2\<lparr>event_flags := event_flags acc, time_sec := time_sec acc\<rparr>
                    in Some (s\<lparr>proxy_pool := (proxy_pool s)[unat ident := proxy\<lparr>config := c3\<rparr>]\<rparr>,
                             True)))"

section \<open>proxy_read, proxy_write, proxy_force_send, proxy_confirm_sent\<close>

text \<open>
  These functions index \<open>proxy_pool\<close> with the \<open>id\<close> they are given; an index outside
  the array is undefined behaviour (\<open>None\<close>). \<open>app\<close> says what the application's callback
  at an address does to the channel it is handed.
\<close>

definition proxy_read ::
  "(knot_callback_t \<Rightarrow> knot_proxy \<Rightarrow> knot_proxy) \<Rightarrow> proxy_state \<Rightarrow> u8 \<Rightarrow> bool
     \<Rightarrow> (proxy_state \<times> (knot_value_type \<times> u8) option) option" where
  "proxy_read app s ident wait =
     (if CONFIG_KNOT_THING_DATA_MAX s \<le> unat ident then None
      else if id' (proxy_pool s ! unat ident) = 0xff then Some (s, None)
      else
        let proxy = proxy_pool s ! unat ident
        in (case poll_cb proxy of
              None \<Rightarrow> Some (s, None)
            | Some cb \<Rightarrow>
                let proxy1 = app cb (proxy\<lparr>olen := 0, wait_resp := wait\<rparr>);
                    s1 = s\<lparr>proxy_pool := (proxy_pool s)[unat ident := proxy1]\<rparr>
                in if olen proxy1 \<le> 0 then Some (s1, None)
                   else Some (s1, Some (value' proxy1, olen proxy1))))"

definition proxy_write ::
  "(knot_callback_t \<Rightarrow> knot_proxy \<Rightarrow> knot_proxy) \<Rightarrow> proxy_state \<Rightarrow> u8
     \<Rightarrow> knot_value_type \<Rightarrow> u8 \<Rightarrow> (proxy_state \<times> s8) option" where
  "proxy_write app s ident val value_len =
     (if last_id s < ident then Some (s, - EINVAL)
      else if CONFIG_KNOT_THING_DATA_MAX s \<le> unat ident then None
      else
        let proxy = proxy_pool s ! unat ident
        in if id' proxy = 0xff then Some (s, - EINVAL)
           else
             (case changed_cb proxy of
                None \<Rightarrow> Some (s, 0)
              | Some cb \<Rightarrow>
                  let proxy1 = proxy\<lparr>value' := val\<rparr>;
                      proxy2 = (if value_type (schema proxy1) = KNOT_VALUE_TYPE_RAW
                                then proxy1\<lparr>rlen := value_len\<rparr> else proxy1);
                      proxy3 = app cb proxy2
                  in Some (s\<lparr>proxy_pool := (proxy_pool s)[unat ident := proxy3]\<rparr>,
                           olen proxy3)))"

definition proxy_force_send :: "proxy_state \<Rightarrow> u8 \<Rightarrow> (proxy_state \<times> s8) option" where
  "proxy_force_send s ident =
     (if CONFIG_KNOT_THING_DATA_MAX s \<le> unat ident then None
      else if id' (proxy_pool s ! unat ident) = 0xff then Some (s, - EINVAL)
      else Some (s\<lparr>proxy_pool :=
                    (proxy_pool s)[unat ident := (proxy_pool s ! unat ident)\<lparr>send := True\<rparr>]\<rparr>, 0))"

definition proxy_confirm_sent :: "proxy_state \<Rightarrow> u8 \<Rightarrow> (proxy_state \<times> s8) option" where
  "proxy_confirm_sent s ident =
     (if CONFIG_KNOT_THING_DATA_MAX s \<le> unat ident then None
      else if id' (proxy_pool s ! unat ident) = 0xff then Some (s, - EINVAL)
      else Some (s\<lparr>proxy_pool :=
                    (proxy_pool s)[unat ident := (proxy_pool s ! unat ident)\<lparr>send := False\<rparr>]\<rparr>, 0))"

section \<open>Runs of calls\<close>

text \<open>
  The results of a sequence of \<open>knot_proxy_value_set_basic\<close> calls on one channel, each
  call with the uptime at the call and the candidate object.
\<close>

fun set_basic_results :: "knot_proxy \<Rightarrow> (s64 \<times> u8 list) list \<Rightarrow> bool list option" where
  "set_basic_results p [] = Some []"
| "set_basic_results p ((t, mem) # calls) =
     (case knot_proxy_value_set_basic t (Some p) mem of
        Some (Some p1, r) \<Rightarrow> map_option ((#) r) (set_basic_results p1 calls)
      | _ \<Rightarrow> None)"

text \<open>
  A sequence of \<open>knot_proxy_register\<close> calls; a failed call leaves the table as it was.
  The second component lists the identifiers of the calls that succeeded, in order.
\<close>

type_synonym register_call =
  "u8 \<times> string option \<times> u16 \<times> u8 \<times> u8 \<times> knot_callback_t option \<times> knot_callback_t option"

fun register_all :: "knot_env \<Rightarrow> proxy_state \<Rightarrow> register_call list \<Rightarrow> proxy_state \<times> u8 list" where
  "register_all env s [] = (s, [])"
| "register_all env s ((ident, name_ptr, tid, vtype, un, changed, poll) # calls) =
     (case knot_proxy_register env s ident name_ptr tid vtype un changed poll of
        Inl e \<Rightarrow> register_all env s calls
      | Inr s1 \<Rightarrow> (case register_all env s1 calls of (s2, ok) \<Rightarrow> (s2, ident # ok)))"

text \<open>The identifiers of the occupied slots of the table.\<close>

definition registered_ids :: "proxy_state \<Rightarrow> u8 list" where
  "registered_ids s = filter (\<lambda>i. i \<noteq> 0xff) (map id' (proxy_pool s))"

text \<open>
  An application whose poll callback reports one candidate through
  \<open>knot_proxy_value_set_basic\<close>, as \<open>poll_led\<close> and \<open>poll_thermo\<close> of multisensor.c
  do: \<open>t\<close> is the uptime at the call and \<open>mem\<close> the candidate object.
\<close>

definition poll_set_basic :: "s64 \<Rightarrow> u8 list \<Rightarrow> knot_callback_t \<Rightarrow> knot_proxy \<Rightarrow> knot_proxy" where
  "poll_set_basic t mem cb proxy =
     (case knot_proxy_value_set_basic t (Some proxy) mem of
        Some (Some proxy1, r) \<Rightarrow> proxy1
      | _ \<Rightarrow> proxy)"

section \<open>The threshold conditions in the words of the specification\<close>

text \<open>
  ``The candidate is above the upper limit'' and ``below the lower limit'' for a numeric
  channel: the signed comparison of the \<open>s32_t\<close> members on an Int32 channel, the
  binary32 comparison of the \<open>float\<close> members on a Float32 channel.
\<close>

definition above_upper_limit :: "knot_proxy \<Rightarrow> u32 \<Rightarrow> bool" where
  "above_upper_limit p c =
     (if value_type (schema p) = KNOT_VALUE_TYPE_FLOAT
      then float_gt (f32_decode c) (f32_decode (val_f (upper_limit (config p))))
      else sint (val_i (upper_limit (config p))) < sint c)"

definition below_lower_limit :: "knot_proxy \<Rightarrow> u32 \<Rightarrow> bool" where
  "below_lower_limit p c =
     (if value_type (schema p) = KNOT_VALUE_TYPE_FLOAT
      then float_lt (f32_decode c) (f32_decode (val_f (lower_limit (config p))))
      else sint c < sint (val_i (lower_limit (config p))))"

text \<open>
  ``The timeout is due'': OnTimer is set and the elapsed time since \<open>last_timeout\<close> is at
  least the period. ``A threshold is newly crossed'': a threshold option is set, the
  candidate is beyond its limit and the latch of that threshold was clear.
\<close>

definition timeout_due :: "s64 \<Rightarrow> knot_proxy \<Rightarrow> bool" where
  "timeout_due t p =
     (KNOT_EVT_FLAG_TIME AND event_flags (config p) \<noteq> 0
      \<and> unat (time_sec (config p)) * 1000 \<le> unat (ucast t - last_timeout p))"

definition newly_crossed :: "knot_proxy \<Rightarrow> u32 \<Rightarrow> bool" where
  "newly_crossed p c =
     ((KNOT_EVT_FLAG_UPPER_THRESHOLD AND event_flags (config p) \<noteq> 0
         \<and> above_upper_limit p c \<and> \<not> upper_flag p)
      \<or> (KNOT_EVT_FLAG_LOWER_THRESHOLD AND event_flags (config p) \<noteq> 0
         \<and> below_lower_limit p c \<and> \<not> lower_flag p))"

text \<open>
  The invariant that ties \<open>last_id\<close> to the table: the sentinel \<open>0xff\<close> is not an index
  of the table, and \<open>last_id\<close> is the sentinel while no slot is occupied and the greatest
  occupied identifier afterwards.
\<close>

definition last_id_inv :: "proxy_state \<Rightarrow> bool" where
  "last_id_inv s =
     (length (proxy_pool s) \<le> 255
      \<and> last_id s = (if registered_ids s = [] then 0xff else Max (set (registered_ids s))))"

section \<open>Example channels\<close>

text \<open>
  A configuration with the protocol's raw capacity of 16 bytes and validators that accept
  everything, and the channels used to evaluate the code at concrete inputs.
\<close>

definition example_env :: knot_env where
  "example_env =
     \<lparr>KNOT_DATA_RAW_SIZE = 16, KNOT_PROTOCOL_DATA_NAME_LEN = 23,
      knot_schema_is_valid = (\<lambda>_ _ _. 0),
      knot_config_is_valid = (\<lambda>_ _ _ _ _. 0)\<rparr>"

definition example_channel :: "u8 \<Rightarrow> u8 \<Rightarrow> knot_proxy" where
  "example_channel vtype flags =
     (zero_proxy example_env)
       \<lparr>id' := 0,
        schema := (schema (zero_proxy example_env))\<lparr>value_type := vtype\<rparr>,
        config := (config (zero_proxy example_env))\<lparr>event_flags := flags\<rparr>\<rparr>"

definition timer_channel :: "u8 \<Rightarrow> u16 \<Rightarrow> knot_proxy" where
  "timer_channel vtype period =
     (example_channel vtype KNOT_EVT_FLAG_TIME)
       \<lparr>config := (config (example_channel vtype KNOT_EVT_FLAG_TIME))\<lparr>time_sec := period\<rparr>\<rparr>"

text \<open>A channel with only OnUpperThreshold set and the given 32 bits as its upper limit.\<close>

definition threshold_channel :: "u8 \<Rightarrow> u32 \<Rightarrow> knot_proxy" where
  "threshold_channel vtype limit =
     (example_channel vtype KNOT_EVT_FLAG_UPPER_THRESHOLD)
       \<lparr>config := (config (example_channel vtype KNOT_EVT_FLAG_UPPER_THRESHOLD))
                    \<lparr>upper_limit := set_val_i limit (replicate 16 0)\<rparr>\<rparr>"

section \<open>Basic facts\<close>

lemmas flag_defs = KNOT_EVT_FLAG_NONE_def KNOT_EVT_FLAG_TIME_def
  KNOT_EVT_FLAG_LOWER_THRESHOLD_def KNOT_EVT_FLAG_UPPER_THRESHOLD_def KNOT_EVT_FLAG_CHANGE_def

lemmas kind_defs = KNOT_VALUE_TYPE_INT_def KNOT_VALUE_TYPE_FLOAT_def KNOT_VALUE_TYPE_BOOL_def
  KNOT_VALUE_TYPE_RAW_def

lemmas check_defs = check_bool_change_def check_int_change_def check_int_change_float_def
  check_int_upper_threshold_def check_int_lower_threshold_def check_float_upper_threshold_def
  check_float_lower_threshold_def check_float_change_def

lemmas example_defs = threshold_channel_def timer_channel_def example_channel_def zero_proxy_def
  example_env_def

text \<open>Writing a 32-bit member and reading it back.\<close>

lemma low_byte_split: "(ucast (ucast (w :: u32) :: u8) :: u32) + 256 * drop_bit 8 w = w"
proof -
  have "(ucast (ucast w :: u8) :: u32) = take_bit 8 w"
    by (simp add: unsigned_ucast_eq)
  moreover have "256 * drop_bit 8 w = push_bit 8 (drop_bit 8 w)"
    by (simp add: push_bit_eq_mult)
  moreover have "push_bit 8 (drop_bit 8 w) + take_bit 8 w = w"
    by (rule bits_ident)
  ultimately show ?thesis
    by (simp only: add.commute)
qed

lemma le_word_le_bytes: "le_word (le_bytes w) = w"
proof -
  have d3: "(ucast (ucast (drop_bit 24 w) :: u8) :: u32) = drop_bit 24 w"
    using low_byte_split [of "drop_bit 24 w"] by (simp add: drop_bit_drop_bit)
  have d2: "(ucast (ucast (drop_bit 16 w) :: u8) :: u32) + 256 * drop_bit 24 w = drop_bit 16 w"
    using low_byte_split [of "drop_bit 16 w"] by (simp add: drop_bit_drop_bit)
  have d1: "(ucast (ucast (drop_bit 8 w) :: u8) :: u32) + 256 * drop_bit 16 w = drop_bit 8 w"
    using low_byte_split [of "drop_bit 8 w"] by (simp add: drop_bit_drop_bit)
  show ?thesis
    by (simp add: le_bytes_def d3 d2 d1 low_byte_split)
qed

lemma length_le_bytes: "length (le_bytes w) = 4"
  by (simp add: le_bytes_def)

lemma load_32_le_bytes: "load_32 (le_bytes w) = Some w"
  by (simp add: load_32_def length_le_bytes le_word_le_bytes)

lemma val_i_set_val_i: "val_i (set_val_i w v) = w"
  by (simp add: val_i_def set_val_i_def length_le_bytes le_word_le_bytes)

lemma val_f_set_val_f: "val_f (set_val_f w v) = w"
  by (simp add: val_f_def set_val_f_def length_le_bytes le_word_le_bytes)

lemma val_b_set_val_b: "val_b (set_val_b b v) = b"
  by (simp add: val_b_def set_val_b_def)

lemma val_b_Cons: "val_b (b # v) = (b \<noteq> 0)"
  by (simp add: val_b_def)

lemma val_b_zero: "val_b (replicate n 0) = False"
  by (cases n) (simp_all add: val_b_def)

text \<open>\<open>check_timeout\<close> changes nothing but \<open>last_timeout\<close>.\<close>

lemma check_timeout_eq:
  "check_timeout t p =
     (if KNOT_EVT_FLAG_TIME AND event_flags (config p) \<noteq> 0
         \<and> unat (time_sec (config p)) * 1000 \<le> unat (ucast t - last_timeout p)
      then (p\<lparr>last_timeout := ucast t\<rparr>, True) else (p, False))"
  by (simp add: check_timeout_def Let_def)

lemma snd_check_timeout: "snd (check_timeout t p) = timeout_due t p"
  by (simp add: check_timeout_eq timeout_due_def)

lemma check_timeout_no_timer:
  "KNOT_EVT_FLAG_TIME AND event_flags (config p) = 0 \<Longrightarrow> check_timeout t p = (p, False)"
  by (simp add: check_timeout_def)

lemma check_timeout_fields:
  "schema (fst (check_timeout t p)) = schema p"
  "config (fst (check_timeout t p)) = config p"
  "value' (fst (check_timeout t p)) = value' p"
  "send (fst (check_timeout t p)) = send p"
  "wait_resp (fst (check_timeout t p)) = wait_resp p"
  "upper_flag (fst (check_timeout t p)) = upper_flag p"
  "lower_flag (fst (check_timeout t p)) = lower_flag p"
  "olen (fst (check_timeout t p)) = olen p"
  "rlen (fst (check_timeout t p)) = rlen p"
  "id' (fst (check_timeout t p)) = id' p"
  "poll_cb (fst (check_timeout t p)) = poll_cb p"
  "changed_cb (fst (check_timeout t p)) = changed_cb p"
  by (simp_all add: check_timeout_def Let_def)

lemma check_after_timeout:
  "check_bool_change (fst (check_timeout t p)) b = check_bool_change p b"
  "check_int_change (fst (check_timeout t p)) c = check_int_change p c"
  "check_int_change_float (fst (check_timeout t p)) c = check_int_change_float p c"
  "check_int_upper_threshold (fst (check_timeout t p)) c = check_int_upper_threshold p c"
  "check_int_lower_threshold (fst (check_timeout t p)) c = check_int_lower_threshold p c"
  "check_float_upper_threshold (fst (check_timeout t p)) c = check_float_upper_threshold p c"
  "check_float_lower_threshold (fst (check_timeout t p)) c = check_float_lower_threshold p c"
  by (simp_all add: check_defs check_timeout_fields)

text \<open>The three supported cases of \<open>knot_proxy_value_set_basic\<close>, each as one equation.\<close>

lemma set_basic_bool:
  assumes k: "value_type (schema p) = KNOT_VALUE_TYPE_BOOL"
      and cand: "load_bool mem = Some b"
  shows "knot_proxy_value_set_basic t (Some p) mem =
     Some (Some (if send p \<or> snd (check_timeout t p) \<or> check_bool_change p b
                 then (fst (check_timeout t p))\<lparr>olen := 1, value' := set_val_b b (value' p),
                                                  send := wait_resp p\<rparr>
                 else fst (check_timeout t p)),
           send p \<or> snd (check_timeout t p) \<or> check_bool_change p b)"
  using k cand
  by (simp add: knot_proxy_value_set_basic_def split_beta check_timeout_fields
      check_after_timeout kind_defs Let_def)

lemma set_basic_int:
  assumes k: "value_type (schema p) = KNOT_VALUE_TYPE_INT"
      and cand: "load_32 mem = Some c"
  shows "knot_proxy_value_set_basic t (Some p) mem =
     Some (Some ((if send p \<or> snd (check_timeout t p) \<or> check_int_change p c
                     \<or> (check_int_upper_threshold p c \<and> \<not> upper_flag p)
                     \<or> (check_int_lower_threshold p c \<and> \<not> lower_flag p)
                  then (fst (check_timeout t p))\<lparr>olen := 4, value' := set_val_i c (value' p),
                                                   send := wait_resp p\<rparr>
                  else fst (check_timeout t p))
                 \<lparr>upper_flag := check_int_upper_threshold p c,
                  lower_flag := check_int_lower_threshold p c\<rparr>),
           send p \<or> snd (check_timeout t p) \<or> check_int_change p c
             \<or> (check_int_upper_threshold p c \<and> \<not> upper_flag p)
             \<or> (check_int_lower_threshold p c \<and> \<not> lower_flag p))"
  using k cand
  by (simp add: knot_proxy_value_set_basic_def split_beta check_timeout_fields
      check_after_timeout kind_defs Let_def)

lemma set_basic_float:
  assumes k: "value_type (schema p) = KNOT_VALUE_TYPE_FLOAT"
      and cand: "load_32 mem = Some c"
  shows "knot_proxy_value_set_basic t (Some p) mem =
     Some (Some ((if send p \<or> snd (check_timeout t p) \<or> check_int_change_float p c
                     \<or> (check_float_upper_threshold p c \<and> \<not> upper_flag p)
                     \<or> (check_float_lower_threshold p c \<and> \<not> lower_flag p)
                  then (fst (check_timeout t p))\<lparr>olen := 4, value' := set_val_f c (value' p),
                                                   send := wait_resp p\<rparr>
                  else fst (check_timeout t p))
                 \<lparr>upper_flag := check_float_upper_threshold p c,
                  lower_flag := check_float_lower_threshold p c\<rparr>),
           send p \<or> snd (check_timeout t p) \<or> check_int_change_float p c
             \<or> (check_float_upper_threshold p c \<and> \<not> upper_flag p)
             \<or> (check_float_lower_threshold p c \<and> \<not> lower_flag p))"
  using k cand
  by (simp add: knot_proxy_value_set_basic_def split_beta check_timeout_fields
      check_after_timeout kind_defs Let_def)

text \<open>What a call of a set function leaves behind, by its result.\<close>

lemma set_basic_other:
  assumes "value_type (schema p) \<noteq> KNOT_VALUE_TYPE_BOOL"
      and "value_type (schema p) \<noteq> KNOT_VALUE_TYPE_INT"
      and "value_type (schema p) \<noteq> KNOT_VALUE_TYPE_FLOAT"
  shows "knot_proxy_value_set_basic t (Some p) mem = Some (Some (fst (check_timeout t p)), False)"
  using assms
  by (simp add: knot_proxy_value_set_basic_def split_beta check_timeout_fields)

lemma set_basic_unreadable:
  "value_type (schema p) = KNOT_VALUE_TYPE_BOOL \<Longrightarrow> load_bool mem = None
     \<Longrightarrow> knot_proxy_value_set_basic t (Some p) mem = None"
  "value_type (schema p) = KNOT_VALUE_TYPE_INT \<Longrightarrow> load_32 mem = None
     \<Longrightarrow> knot_proxy_value_set_basic t (Some p) mem = None"
  "value_type (schema p) = KNOT_VALUE_TYPE_FLOAT \<Longrightarrow> load_32 mem = None
     \<Longrightarrow> knot_proxy_value_set_basic t (Some p) mem = None"
  by (simp_all add: knot_proxy_value_set_basic_def split_beta check_timeout_fields kind_defs)


lemma result_eqD: "Some (Some a, b) = Some (Some p', r) \<Longrightarrow> p' = a \<and> r = b"
  by simp

lemma set_basic_bool_effect:
  assumes k: "value_type (schema p) = KNOT_VALUE_TYPE_BOOL"
      and res: "knot_proxy_value_set_basic t (Some p) mem = Some (Some p', r)"
  shows "wait_resp p' = wait_resp p
         \<and> send p' = (if r then wait_resp p else send p)
         \<and> olen p' = (if r then 1 else olen p)
         \<and> (if r then load_bool mem = Some (val_b (value' p')) else value' p' = value' p)"
proof (cases "load_bool mem")
  case None
  then show ?thesis using res set_basic_unreadable(1) [OF k] by simp
next
  case (Some c)
  define R where "R = (send p \<or> snd (check_timeout t p) \<or> check_bool_change p c)"
  note e = res [unfolded set_basic_bool [OF k Some], folded R_def]
  have r: "r = R"
    by (rule conjunct2 [OF result_eqD [OF e]])
  have p': "p' = (if R then (fst (check_timeout t p))\<lparr>olen := 1, value' := set_val_b c (value' p),
                                                   send := wait_resp p\<rparr>
                  else fst (check_timeout t p))"
    by (rule conjunct1 [OF result_eqD [OF e]])
  show ?thesis
  proof (cases R)
    case True
    then show ?thesis
      using r p' by (simp add: check_timeout_fields val_b_set_val_b Some)
  next
    case False
    then show ?thesis
      using r p' by (simp add: check_timeout_fields)
  qed
qed

lemma set_basic_int_effect:
  assumes k: "value_type (schema p) = KNOT_VALUE_TYPE_INT"
      and res: "knot_proxy_value_set_basic t (Some p) mem = Some (Some p', r)"
  shows "wait_resp p' = wait_resp p
         \<and> send p' = (if r then wait_resp p else send p)
         \<and> olen p' = (if r then 4 else olen p)
         \<and> (if r then load_32 mem = Some (val_i (value' p')) else value' p' = value' p)"
proof (cases "load_32 mem")
  case None
  then show ?thesis using res set_basic_unreadable(2) [OF k] by simp
next
  case (Some c)
  define R where "R = (send p \<or> snd (check_timeout t p) \<or> check_int_change p c
             \<or> (check_int_upper_threshold p c \<and> \<not> upper_flag p)
             \<or> (check_int_lower_threshold p c \<and> \<not> lower_flag p))"
  note e = res [unfolded set_basic_int [OF k Some], folded R_def]
  have r: "r = R"
    by (rule conjunct2 [OF result_eqD [OF e]])
  have p': "p' = (if R then (fst (check_timeout t p))\<lparr>olen := 4, value' := set_val_i c (value' p),
                                                   send := wait_resp p\<rparr>
                  else fst (check_timeout t p))
                 \<lparr>upper_flag := check_int_upper_threshold p c,
                  lower_flag := check_int_lower_threshold p c\<rparr>"
    by (rule conjunct1 [OF result_eqD [OF e]])
  show ?thesis
  proof (cases R)
    case True
    then show ?thesis
      using r p' by (simp add: check_timeout_fields val_i_set_val_i Some)
  next
    case False
    then show ?thesis
      using r p' by (simp add: check_timeout_fields)
  qed
qed

lemma set_basic_float_effect:
  assumes k: "value_type (schema p) = KNOT_VALUE_TYPE_FLOAT"
      and res: "knot_proxy_value_set_basic t (Some p) mem = Some (Some p', r)"
  shows "wait_resp p' = wait_resp p
         \<and> send p' = (if r then wait_resp p else send p)
         \<and> olen p' = (if r then 4 else olen p)
         \<and> (if r then load_32 mem = Some (val_f (value' p')) else value' p' = value' p)"
proof (cases "load_32 mem")
  case None
  then show ?thesis using res set_basic_unreadable(3) [OF k] by simp
next
  case (Some c)
  define R where "R = (send p \<or> snd (check_timeout t p) \<or> check_int_change_float p c
             \<or> (check_float_upper_threshold p c \<and> \<not> upper_flag p)
             \<or> (check_float_lower_threshold p c \<and> \<not> lower_flag p))"
  note e = res [unfolded set_basic_float [OF k Some], folded R_def]
  have r: "r = R"
    by (rule conjunct2 [OF result_eqD [OF e]])
  have p': "p' = (if R then (fst (check_timeout t p))\<lparr>olen := 4, value' := set_val_f c (value' p),
                                                   send := wait_resp p\<rparr>
                  else fst (check_timeout t p))
                 \<lparr>upper_flag := check_float_upper_threshold p c,
                  lower_flag := check_float_lower_threshold p c\<rparr>"
    by (rule conjunct1 [OF result_eqD [OF e]])
  show ?thesis
  proof (cases R)
    case True
    then show ?thesis
      using r p' by (simp add: check_timeout_fields val_f_set_val_f Some)
  next
    case False
    then show ?thesis
      using r p' by (simp add: check_timeout_fields)
  qed
qed

lemma set_basic_other_effect:
  assumes o: "value_type (schema p) \<noteq> KNOT_VALUE_TYPE_BOOL"
          "value_type (schema p) \<noteq> KNOT_VALUE_TYPE_INT"
          "value_type (schema p) \<noteq> KNOT_VALUE_TYPE_FLOAT"
      and res: "knot_proxy_value_set_basic t (Some p) mem = Some (Some p', r)"
  shows "\<not> r \<and> wait_resp p' = wait_resp p \<and> send p' = send p \<and> olen p' = olen p
         \<and> value' p' = value' p"
  using res unfolding set_basic_other [OF o]
  by (auto simp add: check_timeout_fields)


lemma set_basic_effect:
  assumes res: "knot_proxy_value_set_basic t (Some p) mem = Some (Some p', r)"
  shows "wait_resp p' = wait_resp p
         \<and> send p' = (if r then wait_resp p else send p)
         \<and> (if r then
               (value_type (schema p) = KNOT_VALUE_TYPE_BOOL
                  \<and> load_bool mem = Some (val_b (value' p')) \<and> olen p' = 1)
               \<or> (value_type (schema p) = KNOT_VALUE_TYPE_INT
                  \<and> load_32 mem = Some (val_i (value' p')) \<and> olen p' = 4)
               \<or> (value_type (schema p) = KNOT_VALUE_TYPE_FLOAT
                  \<and> load_32 mem = Some (val_f (value' p')) \<and> olen p' = 4)
             else value' p' = value' p \<and> olen p' = olen p)"
proof -
  consider (b) "value_type (schema p) = KNOT_VALUE_TYPE_BOOL"
    | (i) "value_type (schema p) = KNOT_VALUE_TYPE_INT"
    | (f) "value_type (schema p) = KNOT_VALUE_TYPE_FLOAT"
    | (o) "value_type (schema p) \<noteq> KNOT_VALUE_TYPE_BOOL"
          "value_type (schema p) \<noteq> KNOT_VALUE_TYPE_INT"
          "value_type (schema p) \<noteq> KNOT_VALUE_TYPE_FLOAT"
    by blast
  then show ?thesis
  proof cases
    case b
    show ?thesis
      using set_basic_bool_effect [OF b res] b by (cases r) simp_all
  next
    case i
    show ?thesis
      using set_basic_int_effect [OF i res] i by (cases r) simp_all
  next
    case f
    show ?thesis
      using set_basic_float_effect [OF f res] f by (cases r) simp_all
  next
    case o
    show ?thesis
      using set_basic_other_effect [OF o res] by simp
  qed
qed

lemma check_raw_change_after_timeout:
  "check_raw_change (fst (check_timeout t p)) raw len = check_raw_change p raw len"
  by (simp add: check_raw_change_def check_timeout_fields)

lemma set_string_not_raw:
  "value_type (schema p) \<noteq> KNOT_VALUE_TYPE_RAW
     \<Longrightarrow> knot_proxy_value_set_string env t (Some p) raw len = Some (Some p, False)"
  by (simp add: knot_proxy_value_set_string_def)

lemma set_string_unreadable:
  "value_type (schema p) = KNOT_VALUE_TYPE_RAW \<Longrightarrow> check_raw_change p raw len = None
     \<Longrightarrow> knot_proxy_value_set_string env t (Some p) raw len = None"
  by (simp add: knot_proxy_value_set_string_def split_beta check_raw_change_after_timeout)

lemma set_string_raw:
  assumes k: "value_type (schema p) = KNOT_VALUE_TYPE_RAW"
      and ch: "check_raw_change p raw len = Some change"
  shows "knot_proxy_value_set_string env t (Some p) raw len =
     (if \<not> send p \<and> \<not> change \<and> \<not> snd (check_timeout t p)
      then Some (Some (fst (check_timeout t p)), False)
      else if min (int (KNOT_DATA_RAW_SIZE env)) len < 0
              \<or> length raw < nat (min (int (KNOT_DATA_RAW_SIZE env)) len)
              \<or> length (value' p) < nat (min (int (KNOT_DATA_RAW_SIZE env)) len)
      then None
      else Some (Some ((fst (check_timeout t p))
                   \<lparr>olen := of_int (min (int (KNOT_DATA_RAW_SIZE env)) len),
                    rlen := of_int (min (int (KNOT_DATA_RAW_SIZE env)) len),
                    value' := take (nat (min (int (KNOT_DATA_RAW_SIZE env)) len)) raw
                              @ drop (nat (min (int (KNOT_DATA_RAW_SIZE env)) len)) (value' p),
                    send := wait_resp p\<rparr>), True))"
  using k ch
  by (simp add: knot_proxy_value_set_string_def split_beta check_raw_change_after_timeout
      check_timeout_fields Let_def)

lemma set_string_effect:
  assumes res: "knot_proxy_value_set_string env t (Some p) raw len = Some (Some p', r)"
  shows "wait_resp p' = wait_resp p
         \<and> send p' = (if r then wait_resp p else send p)
         \<and> (if r then
               value_type (schema p) = KNOT_VALUE_TYPE_RAW \<and> 0 \<le> len
               \<and> nat (min (int (KNOT_DATA_RAW_SIZE env)) len) \<le> length raw
               \<and> olen p' = of_int (min (int (KNOT_DATA_RAW_SIZE env)) len)
               \<and> rlen p' = of_int (min (int (KNOT_DATA_RAW_SIZE env)) len)
               \<and> value' p' = take (nat (min (int (KNOT_DATA_RAW_SIZE env)) len)) raw
                              @ drop (nat (min (int (KNOT_DATA_RAW_SIZE env)) len)) (value' p)
             else value' p' = value' p \<and> olen p' = olen p \<and> rlen p' = rlen p)"
proof (cases "value_type (schema p) = KNOT_VALUE_TYPE_RAW")
  case False
  show ?thesis
    using res unfolding set_string_not_raw [OF False] by auto
next
  case True
  show ?thesis
  proof (cases "check_raw_change p raw len")
    case None
    then show ?thesis using res set_string_unreadable [OF True] by simp
  next
    case (Some change)
    define idle where "idle = (\<not> send p \<and> \<not> change \<and> \<not> snd (check_timeout t p))"
    define bad where "bad = (min (int (KNOT_DATA_RAW_SIZE env)) len < 0
              \<or> length raw < nat (min (int (KNOT_DATA_RAW_SIZE env)) len)
              \<or> length (value' p) < nat (min (int (KNOT_DATA_RAW_SIZE env)) len))"
    note e = res [unfolded set_string_raw [OF True Some], folded idle_def bad_def]
    show ?thesis
    proof (cases idle)
      case True
      then show ?thesis
        using e by (auto simp add: check_timeout_fields)
    next
      case False
      note ni = False
      show ?thesis
      proof (cases bad)
        case True
        then show ?thesis using e ni by simp
      next
        case False
        then have ok: "0 \<le> len" "nat (min (int (KNOT_DATA_RAW_SIZE env)) len) \<le> length raw"
          by (auto simp add: bad_def)
        show ?thesis
          using e ni False ok \<open>value_type (schema p) = KNOT_VALUE_TYPE_RAW\<close>
          by (auto simp add: check_timeout_fields)
      qed
    qed
  qed
qed

text \<open>The four outcomes of \<open>knot_proxy_register\<close>.\<close>

lemma register_failures:
  "CONFIG_KNOT_THING_DATA_MAX s \<le> unat i
     \<Longrightarrow> knot_proxy_register env s i nm tid vt un ccb pcb = Inl CapacityExceeded"
  "unat i < CONFIG_KNOT_THING_DATA_MAX s \<Longrightarrow> id' (proxy_pool s ! unat i) \<noteq> 0xff
     \<Longrightarrow> knot_proxy_register env s i nm tid vt un ccb pcb = Inl DuplicateId"
  "unat i < CONFIG_KNOT_THING_DATA_MAX s \<Longrightarrow> id' (proxy_pool s ! unat i) = 0xff
     \<Longrightarrow> knot_schema_is_valid env tid vt un \<noteq> 0 \<or> nm = None
     \<Longrightarrow> knot_proxy_register env s i nm tid vt un ccb pcb = Inl InvalidSchema"
  by (simp_all add: knot_proxy_register_def)

lemma register_success:
  assumes "unat i < CONFIG_KNOT_THING_DATA_MAX s" and "id' (proxy_pool s ! unat i) = 0xff"
      and "knot_schema_is_valid env tid vt un = 0" and "nm = Some n"
  shows "knot_proxy_register env s i nm tid vt un ccb pcb =
     Inr (s\<lparr>proxy_pool := (proxy_pool s)
               [unat i := (proxy_pool s ! unat i)
                  \<lparr>id' := i,
                   schema := \<lparr>type_id = tid, unit' = un, value_type = vt,
                              name = take (min (KNOT_PROTOCOL_DATA_NAME_LEN env) (length n)) n
                                     @ drop (min (KNOT_PROTOCOL_DATA_NAME_LEN env) (length n))
                                         (name (schema (proxy_pool s ! unat i)))\<rparr>,
                   send := False, upper_flag := False, lower_flag := False, olen := 0,
                   config := (config (proxy_pool s ! unat i))
                               \<lparr>event_flags := KNOT_EVT_FLAG_NONE\<rparr>,
                   poll_cb := pcb, changed_cb := ccb\<rparr>],
             last_id := (if last_id s < i \<or> last_id s = 0xff then i else last_id s)\<rparr>)"
  using assms by (simp add: knot_proxy_register_def Let_def)

section \<open>Claim C1\<close>

text \<open>
  Claim C1 (the change condition of a Float32 channel compares the candidate with the
  stored float). The \<open>KNOT_VALUE_TYPE_FLOAT\<close> case of \<open>knot_proxy_value_set_basic\<close>
  expands \<open>check_int_change\<close>, not \<open>check_float_change\<close>: the candidate is compared with
  the \<open>s32_t\<close> member converted to float. A Float32 channel with only OnChange set that
  stores \<open>1.0f\<close> (bytes \<open>00 00 80 3F\<close>, the integer 1065353216) is given the candidate
  \<open>1.0f\<close> again, with nothing forced and no timer: the call returns true and asks for
  four bytes to be sent, although \<open>check_float_change\<close> finds no change.
\<close>

theorem float_change_reads_int_member:
  "knot_proxy_value_set_basic 0
     (Some ((example_channel KNOT_VALUE_TYPE_FLOAT KNOT_EVT_FLAG_CHANGE)
              \<lparr>value' := [0, 0, 0x80, 0x3F, 0, 0, 0, 0, 0, 0, 0, 0, 0, 0, 0, 0]\<rparr>))
     [0, 0, 0x80, 0x3F]
   = Some (Some ((example_channel KNOT_VALUE_TYPE_FLOAT KNOT_EVT_FLAG_CHANGE)
              \<lparr>value' := [0, 0, 0x80, 0x3F, 0, 0, 0, 0, 0, 0, 0, 0, 0, 0, 0, 0],
               olen := 4\<rparr>), True)
   \<and> \<not> check_float_change
          ((example_channel KNOT_VALUE_TYPE_FLOAT KNOT_EVT_FLAG_CHANGE)
              \<lparr>value' := [0, 0, 0x80, 0x3F, 0, 0, 0, 0, 0, 0, 0, 0, 0, 0, 0, 0]\<rparr>)
          (le_word [0, 0, 0x80, 0x3F])"
  by (simp add: knot_proxy_value_set_basic_def example_defs flag_defs kind_defs check_defs
    check_timeout_def load_32_def set_val_f_def le_bytes_def val_i_def val_f_def
    f32_decode_def s32_to_float_def round_to_24_def excess_bits_def)

section \<open>Claim C2\<close>

lemma numeric_step:
  assumes numeric: "value_type (schema p) = KNOT_VALUE_TYPE_INT
                    \<or> value_type (schema p) = KNOT_VALUE_TYPE_FLOAT"
      and cand: "load_32 mem = Some c"
  shows "\<exists>p' r. knot_proxy_value_set_basic t (Some p) mem = Some (Some p', r)
          \<and> upper_flag p' = (KNOT_EVT_FLAG_UPPER_THRESHOLD AND event_flags (config p) \<noteq> 0
                              \<and> above_upper_limit p c)
          \<and> lower_flag p' = (KNOT_EVT_FLAG_LOWER_THRESHOLD AND event_flags (config p) \<noteq> 0
                              \<and> below_lower_limit p c)
          \<and> (event_flags (config p) = KNOT_EVT_FLAG_UPPER_THRESHOLD \<and> \<not> send p
               \<longrightarrow> r = (above_upper_limit p c \<and> \<not> upper_flag p))
          \<and> (event_flags (config p) = KNOT_EVT_FLAG_LOWER_THRESHOLD \<and> \<not> send p
               \<longrightarrow> r = (below_lower_limit p c \<and> \<not> lower_flag p))"
  using numeric
proof
  assume k: "value_type (schema p) = KNOT_VALUE_TYPE_INT"
  have nf: "value_type (schema p) \<noteq> KNOT_VALUE_TYPE_FLOAT"
    using k by (simp add: kind_defs)
  have up: "event_flags (config p) = KNOT_EVT_FLAG_UPPER_THRESHOLD \<Longrightarrow>
      snd (check_timeout t p) = False \<and> check_int_change p c = False
      \<and> check_int_lower_threshold p c = False
      \<and> check_int_upper_threshold p c = above_upper_limit p c"
    using nf by (simp add: check_timeout_no_timer check_defs flag_defs above_upper_limit_def)
  have lo: "event_flags (config p) = KNOT_EVT_FLAG_LOWER_THRESHOLD \<Longrightarrow>
      snd (check_timeout t p) = False \<and> check_int_change p c = False
      \<and> check_int_upper_threshold p c = False
      \<and> check_int_lower_threshold p c = below_lower_limit p c"
    using nf by (simp add: check_timeout_no_timer check_defs flag_defs below_lower_limit_def)
  have fu: "check_int_upper_threshold p c
      = (KNOT_EVT_FLAG_UPPER_THRESHOLD AND event_flags (config p) \<noteq> 0 \<and> above_upper_limit p c)"
    using nf by (simp add: check_defs above_upper_limit_def)
  have fl: "check_int_lower_threshold p c
      = (KNOT_EVT_FLAG_LOWER_THRESHOLD AND event_flags (config p) \<noteq> 0 \<and> below_lower_limit p c)"
    using nf by (simp add: check_defs below_lower_limit_def)
  show ?thesis
    unfolding set_basic_int [OF k cand]
    apply (intro exI conjI)
        apply (rule refl)
       apply (simp add: fu)
      apply (simp add: fl)
     apply (clarsimp simp add: up)
    apply (clarsimp simp add: lo)
    done
next
  assume k: "value_type (schema p) = KNOT_VALUE_TYPE_FLOAT"
  have up: "event_flags (config p) = KNOT_EVT_FLAG_UPPER_THRESHOLD \<Longrightarrow>
      snd (check_timeout t p) = False \<and> check_int_change_float p c = False
      \<and> check_float_lower_threshold p c = False
      \<and> check_float_upper_threshold p c = above_upper_limit p c"
    using k by (simp add: check_timeout_no_timer check_defs flag_defs above_upper_limit_def)
  have lo: "event_flags (config p) = KNOT_EVT_FLAG_LOWER_THRESHOLD \<Longrightarrow>
      snd (check_timeout t p) = False \<and> check_int_change_float p c = False
      \<and> check_float_upper_threshold p c = False
      \<and> check_float_lower_threshold p c = below_lower_limit p c"
    using k by (simp add: check_timeout_no_timer check_defs flag_defs below_lower_limit_def)
  have fu: "check_float_upper_threshold p c
      = (KNOT_EVT_FLAG_UPPER_THRESHOLD AND event_flags (config p) \<noteq> 0 \<and> above_upper_limit p c)"
    using k by (simp add: check_defs above_upper_limit_def)
  have fl: "check_float_lower_threshold p c
      = (KNOT_EVT_FLAG_LOWER_THRESHOLD AND event_flags (config p) \<noteq> 0 \<and> below_lower_limit p c)"
    using k by (simp add: check_defs below_lower_limit_def)
  show ?thesis
    unfolding set_basic_float [OF k cand]
    apply (intro exI conjI)
        apply (rule refl)
       apply (simp add: fu)
      apply (simp add: fl)
     apply (clarsimp simp add: up)
    apply (clarsimp simp add: lo)
    done
qed

lemma numeric_result:
  assumes numeric: "value_type (schema p) = KNOT_VALUE_TYPE_INT
                    \<or> value_type (schema p) = KNOT_VALUE_TYPE_FLOAT"
      and cand: "load_32 mem = Some c"
  shows "\<exists>p'. knot_proxy_value_set_basic t (Some p) mem
            = Some (Some p',
                send p \<or> timeout_due t p
                \<or> (if value_type (schema p) = KNOT_VALUE_TYPE_INT
                    then check_int_change p c else check_int_change_float p c)
                \<or> newly_crossed p c)"
  using numeric
proof
  assume k: "value_type (schema p) = KNOT_VALUE_TYPE_INT"
  have nf: "value_type (schema p) \<noteq> KNOT_VALUE_TYPE_FLOAT"
    using k by (simp add: kind_defs)
  have nc: "((check_int_upper_threshold p c \<and> \<not> upper_flag p)
             \<or> (check_int_lower_threshold p c \<and> \<not> lower_flag p)) = newly_crossed p c"
    using nf by (auto simp add: check_defs newly_crossed_def above_upper_limit_def
        below_lower_limit_def)
  have r: "(send p \<or> snd (check_timeout t p) \<or> check_int_change p c
             \<or> (check_int_upper_threshold p c \<and> \<not> upper_flag p)
             \<or> (check_int_lower_threshold p c \<and> \<not> lower_flag p))
           = (send p \<or> timeout_due t p
                \<or> (if value_type (schema p) = KNOT_VALUE_TYPE_INT
                    then check_int_change p c else check_int_change_float p c)
                \<or> newly_crossed p c)"
    using nc k by (simp add: snd_check_timeout)
  show ?thesis
    unfolding set_basic_int [OF k cand] r by blast
next
  assume k: "value_type (schema p) = KNOT_VALUE_TYPE_FLOAT"
  have ni: "value_type (schema p) \<noteq> KNOT_VALUE_TYPE_INT"
    using k by (simp add: kind_defs)
  have nc: "((check_float_upper_threshold p c \<and> \<not> upper_flag p)
             \<or> (check_float_lower_threshold p c \<and> \<not> lower_flag p)) = newly_crossed p c"
    using k by (auto simp add: check_defs newly_crossed_def above_upper_limit_def
        below_lower_limit_def)
  have r: "(send p \<or> snd (check_timeout t p) \<or> check_int_change_float p c
             \<or> (check_float_upper_threshold p c \<and> \<not> upper_flag p)
             \<or> (check_float_lower_threshold p c \<and> \<not> lower_flag p))
           = (send p \<or> timeout_due t p
                \<or> (if value_type (schema p) = KNOT_VALUE_TYPE_INT
                    then check_int_change p c else check_int_change_float p c)
                \<or> newly_crossed p c)"
    using nc ni by (simp add: snd_check_timeout)
  show ?thesis
    unfolding set_basic_float [OF k cand] r by blast
qed

lemma upper_only_int_step:
  assumes k: "value_type (schema p) = KNOT_VALUE_TYPE_INT"
      and f: "event_flags (config p) = KNOT_EVT_FLAG_UPPER_THRESHOLD"
      and s: "\<not> send p" and w: "\<not> wait_resp p"
  shows "knot_proxy_value_set_basic t (Some p) (le_bytes c) =
     Some (Some ((if sint (val_i (upper_limit (config p))) < sint c \<and> \<not> upper_flag p
                  then p\<lparr>olen := 4, value' := set_val_i c (value' p), send := False\<rparr>
                  else p)
                 \<lparr>upper_flag := sint (val_i (upper_limit (config p))) < sint c,
                  lower_flag := False\<rparr>),
           sint (val_i (upper_limit (config p))) < sint c \<and> \<not> upper_flag p)"
  unfolding set_basic_int [OF k load_32_le_bytes]
  using f s w by (simp add: check_timeout_no_timer check_defs flag_defs)

lemma upper_only_float_step:
  assumes k: "value_type (schema p) = KNOT_VALUE_TYPE_FLOAT"
      and f: "event_flags (config p) = KNOT_EVT_FLAG_UPPER_THRESHOLD"
      and s: "\<not> send p" and w: "\<not> wait_resp p"
  shows "knot_proxy_value_set_basic t (Some p) (le_bytes c) =
     Some (Some ((if float_gt (f32_decode c) (f32_decode (val_f (upper_limit (config p))))
                     \<and> \<not> upper_flag p
                  then p\<lparr>olen := 4, value' := set_val_f c (value' p), send := False\<rparr>
                  else p)
                 \<lparr>upper_flag := float_gt (f32_decode c)
                                   (f32_decode (val_f (upper_limit (config p)))),
                  lower_flag := False\<rparr>),
           float_gt (f32_decode c) (f32_decode (val_f (upper_limit (config p))))
             \<and> \<not> upper_flag p)"
  unfolding set_basic_float [OF k load_32_le_bytes]
  using f s w by (simp add: check_timeout_no_timer check_defs flag_defs)

lemma upper_only_int_run:
  assumes k: "value_type (schema p) = KNOT_VALUE_TYPE_INT"
      and f: "event_flags (config p) = KNOT_EVT_FLAG_UPPER_THRESHOLD"
      and lim: "val_i (upper_limit (config p)) = 100"
      and s: "\<not> send p" and w: "\<not> wait_resp p" and u: "\<not> upper_flag p"
  shows "set_basic_results p
           [(t1, le_bytes 90), (t2, le_bytes 101), (t3, le_bytes 105), (t4, le_bytes 99),
            (t5, le_bytes 102)]
         = Some [False, True, False, False, True]"
  using k f lim s w u by (simp add: upper_only_int_step)

lemma binary32_samples:
  "f32_decode 0x42B40000 = FNum (90 * 2 ^ 149)"
  "f32_decode 0x42C60000 = FNum (99 * 2 ^ 149)"
  "f32_decode 0x42C80000 = FNum (100 * 2 ^ 149)"
  "f32_decode 0x42CA0000 = FNum (101 * 2 ^ 149)"
  "f32_decode 0x42CC0000 = FNum (102 * 2 ^ 149)"
  "f32_decode 0x42D20000 = FNum (105 * 2 ^ 149)"
  by (simp_all add: f32_decode_def)

lemma upper_only_float_run:
  assumes k: "value_type (schema p) = KNOT_VALUE_TYPE_FLOAT"
      and f: "event_flags (config p) = KNOT_EVT_FLAG_UPPER_THRESHOLD"
      and lim: "val_f (upper_limit (config p)) = 0x42C80000"
      and s: "\<not> send p" and w: "\<not> wait_resp p" and u: "\<not> upper_flag p"
  shows "set_basic_results p
           [(t1, le_bytes 0x42B40000), (t2, le_bytes 0x42CA0000), (t3, le_bytes 0x42D20000),
            (t4, le_bytes 0x42C60000), (t5, le_bytes 0x42CC0000)]
         = Some [False, True, False, False, True]"
  using k f lim s w u by (simp add: upper_only_float_step binary32_samples)

text \<open>
  The options of the THERMO channel of multisensor.c, OnTimer with OnUpperThreshold: above
  the limit at 101 it triggers, at 105 it does not, and the later trigger is the timer's.
\<close>

lemma timer_and_upper_run:
  "set_basic_results
     ((threshold_channel KNOT_VALUE_TYPE_INT 100)
        \<lparr>config := (config (threshold_channel KNOT_VALUE_TYPE_INT 100))
                      \<lparr>event_flags := KNOT_EVT_FLAG_TIME OR KNOT_EVT_FLAG_UPPER_THRESHOLD,
                       time_sec := 5\<rparr>\<rparr>)
     [(10, le_bytes 101), (20, le_bytes 105), (5000, le_bytes 105), (5010, le_bytes 105)]
   = Some [True, False, True, False]"
  by (simp add: knot_proxy_value_set_basic_def example_defs flag_defs kind_defs check_defs
      check_timeout_def load_32_le_bytes val_i_set_val_i)

text \<open>
  Claim C2 (threshold triggers are edge-triggered). On a numeric channel (Int32 or
  Float32) a call of \<open>knot_proxy_value_set_basic\<close> with a readable candidate returns,
  and afterwards \<open>upper_flag\<close> is exactly ``OnUpperThreshold is set and the candidate is
  above the upper limit'' and \<open>lower_flag\<close> exactly ``OnLowerThreshold is set and the
  candidate is below the lower limit'', whatever the call returned. The call returns
  true exactly when a send is forced, the timeout is due, the change condition of the
  code holds, or a threshold is newly crossed (its option set, the candidate beyond the
  limit and its latch clear before the call): a candidate that stays beyond a limit
  whose latch is already set never triggers by that threshold, whatever other options
  the channel has. In particular, when
  OnUpperThreshold is the only flag and no send is forced, the call triggers exactly when
  the candidate is above the limit and \<open>upper_flag\<close> was false (and likewise for the
  lower threshold). With OnUpperThreshold = 100 as the only flag, on a channel that is
  not pending (\<open>send\<close> and \<open>wait_resp\<close> false) and whose latch is clear, the candidates
  90, 101, 105, 99, 102 give the results false, true, false, false, true, at any call
  times: for an Int32 channel, and for a Float32 channel with the binary32 patterns of
  the same numbers.
\<close>

theorem threshold_edge_triggered:
  "((value_type (schema p) = KNOT_VALUE_TYPE_INT \<or> value_type (schema p) = KNOT_VALUE_TYPE_FLOAT)
      \<and> load_32 mem = Some c \<longrightarrow>
      (\<exists>p' r. knot_proxy_value_set_basic t (Some p) mem = Some (Some p', r)
          \<and> r = (send p \<or> timeout_due t p
                   \<or> (if value_type (schema p) = KNOT_VALUE_TYPE_INT
                       then check_int_change p c else check_int_change_float p c)
                   \<or> newly_crossed p c)
          \<and> upper_flag p' = (KNOT_EVT_FLAG_UPPER_THRESHOLD AND event_flags (config p) \<noteq> 0
                              \<and> above_upper_limit p c)
          \<and> lower_flag p' = (KNOT_EVT_FLAG_LOWER_THRESHOLD AND event_flags (config p) \<noteq> 0
                              \<and> below_lower_limit p c)
          \<and> (event_flags (config p) = KNOT_EVT_FLAG_UPPER_THRESHOLD \<and> \<not> send p
               \<longrightarrow> r = (above_upper_limit p c \<and> \<not> upper_flag p))
          \<and> (event_flags (config p) = KNOT_EVT_FLAG_LOWER_THRESHOLD \<and> \<not> send p
               \<longrightarrow> r = (below_lower_limit p c \<and> \<not> lower_flag p))))
   \<and> (value_type (schema p) = KNOT_VALUE_TYPE_INT
        \<and> event_flags (config p) = KNOT_EVT_FLAG_UPPER_THRESHOLD
        \<and> val_i (upper_limit (config p)) = 100
        \<and> \<not> send p \<and> \<not> wait_resp p \<and> \<not> upper_flag p \<longrightarrow>
      set_basic_results p
        [(t1, le_bytes 90), (t2, le_bytes 101), (t3, le_bytes 105), (t4, le_bytes 99),
         (t5, le_bytes 102)]
      = Some [False, True, False, False, True])
   \<and> (value_type (schema p) = KNOT_VALUE_TYPE_FLOAT
        \<and> event_flags (config p) = KNOT_EVT_FLAG_UPPER_THRESHOLD
        \<and> val_f (upper_limit (config p)) = 0x42C80000
        \<and> \<not> send p \<and> \<not> wait_resp p \<and> \<not> upper_flag p \<longrightarrow>
      set_basic_results p
        [(t1, le_bytes 0x42B40000), (t2, le_bytes 0x42CA0000), (t3, le_bytes 0x42D20000),
         (t4, le_bytes 0x42C60000), (t5, le_bytes 0x42CC0000)]
      = Some [False, True, False, False, True])"
proof (intro conjI impI)
  assume "(value_type (schema p) = KNOT_VALUE_TYPE_INT
            \<or> value_type (schema p) = KNOT_VALUE_TYPE_FLOAT) \<and> load_32 mem = Some c"
  then show "\<exists>p' r. knot_proxy_value_set_basic t (Some p) mem = Some (Some p', r)
          \<and> r = (send p \<or> timeout_due t p
                   \<or> (if value_type (schema p) = KNOT_VALUE_TYPE_INT
                       then check_int_change p c else check_int_change_float p c)
                   \<or> newly_crossed p c)
          \<and> upper_flag p' = (KNOT_EVT_FLAG_UPPER_THRESHOLD AND event_flags (config p) \<noteq> 0
                              \<and> above_upper_limit p c)
          \<and> lower_flag p' = (KNOT_EVT_FLAG_LOWER_THRESHOLD AND event_flags (config p) \<noteq> 0
                              \<and> below_lower_limit p c)
          \<and> (event_flags (config p) = KNOT_EVT_FLAG_UPPER_THRESHOLD \<and> \<not> send p
               \<longrightarrow> r = (above_upper_limit p c \<and> \<not> upper_flag p))
          \<and> (event_flags (config p) = KNOT_EVT_FLAG_LOWER_THRESHOLD \<and> \<not> send p
               \<longrightarrow> r = (below_lower_limit p c \<and> \<not> lower_flag p))"
    using numeric_step [of p mem c t] numeric_result [of p mem c t] by fastforce
next
  assume "value_type (schema p) = KNOT_VALUE_TYPE_INT
        \<and> event_flags (config p) = KNOT_EVT_FLAG_UPPER_THRESHOLD
        \<and> val_i (upper_limit (config p)) = 100
        \<and> \<not> send p \<and> \<not> wait_resp p \<and> \<not> upper_flag p"
  then show "set_basic_results p
        [(t1, le_bytes 90), (t2, le_bytes 101), (t3, le_bytes 105), (t4, le_bytes 99),
         (t5, le_bytes 102)]
      = Some [False, True, False, False, True]"
    using upper_only_int_run [of p t1 t2 t3 t4 t5] by blast
next
  assume "value_type (schema p) = KNOT_VALUE_TYPE_FLOAT
        \<and> event_flags (config p) = KNOT_EVT_FLAG_UPPER_THRESHOLD
        \<and> val_f (upper_limit (config p)) = 0x42C80000
        \<and> \<not> send p \<and> \<not> wait_resp p \<and> \<not> upper_flag p"
  then show "set_basic_results p
        [(t1, le_bytes 0x42B40000), (t2, le_bytes 0x42CA0000), (t3, le_bytes 0x42D20000),
         (t4, le_bytes 0x42C60000), (t5, le_bytes 0x42CC0000)]
      = Some [False, True, False, False, True]"
    using upper_only_float_run [of p t1 t2 t3 t4 t5] by blast
qed

theorem threshold_edge_triggered_witness:
  "value_type (schema (threshold_channel KNOT_VALUE_TYPE_INT 100)) = KNOT_VALUE_TYPE_INT
   \<and> event_flags (config (threshold_channel KNOT_VALUE_TYPE_INT 100))
       = KNOT_EVT_FLAG_UPPER_THRESHOLD
   \<and> val_i (upper_limit (config (threshold_channel KNOT_VALUE_TYPE_INT 100))) = 100
   \<and> \<not> send (threshold_channel KNOT_VALUE_TYPE_INT 100)
   \<and> \<not> wait_resp (threshold_channel KNOT_VALUE_TYPE_INT 100)
   \<and> \<not> upper_flag (threshold_channel KNOT_VALUE_TYPE_INT 100)
   \<and> le_bytes 101 = [101, 0, 0, 0]
   \<and> set_basic_results (threshold_channel KNOT_VALUE_TYPE_INT 100)
        [(0, le_bytes 90), (1000, le_bytes 101), (2000, le_bytes 105), (3000, le_bytes 99),
         (4000, le_bytes 102)]
      = Some [False, True, False, False, True]
   \<and> set_basic_results
        ((threshold_channel KNOT_VALUE_TYPE_INT 100)
           \<lparr>config := (config (threshold_channel KNOT_VALUE_TYPE_INT 100))
                         \<lparr>event_flags := KNOT_EVT_FLAG_TIME OR KNOT_EVT_FLAG_UPPER_THRESHOLD,
                          time_sec := 5\<rparr>\<rparr>)
        [(10, le_bytes 101), (20, le_bytes 105), (5000, le_bytes 105), (5010, le_bytes 105)]
      = Some [True, False, True, False]"
proof -
  have hyps: "value_type (schema (threshold_channel KNOT_VALUE_TYPE_INT 100)) = KNOT_VALUE_TYPE_INT
   \<and> event_flags (config (threshold_channel KNOT_VALUE_TYPE_INT 100))
       = KNOT_EVT_FLAG_UPPER_THRESHOLD
   \<and> val_i (upper_limit (config (threshold_channel KNOT_VALUE_TYPE_INT 100))) = 100
   \<and> \<not> send (threshold_channel KNOT_VALUE_TYPE_INT 100)
   \<and> \<not> wait_resp (threshold_channel KNOT_VALUE_TYPE_INT 100)
   \<and> \<not> upper_flag (threshold_channel KNOT_VALUE_TYPE_INT 100)"
    by (simp add: example_defs val_i_set_val_i)
  have bytes: "le_bytes 101 = [101, 0, 0, 0]"
    by (simp add: le_bytes_def)
  show ?thesis
    using hyps bytes timer_and_upper_run
      threshold_edge_triggered [of "threshold_channel KNOT_VALUE_TYPE_INT 100" _ _ _
        0 1000 2000 3000 4000]
    by blast
qed

section \<open>Claim C3\<close>

text \<open>
  Claim C3 (the stored raw length never exceeds the buffer capacity, on the set-string
  path and on the deliver path). \<open>knot_proxy_value_set_string\<close> clamps the length with
  \<open>MIN(KNOT_DATA_RAW_SIZE, len)\<close>; \<open>proxy_write\<close> assigns \<open>rlen = value_len\<close> as it
  comes. A Raw channel of capacity 16 with a delivered callback that does nothing is
  delivered a value with length 200: the stored length becomes 200.
\<close>

theorem proxy_write_stores_length_unclamped:
  "proxy_write (\<lambda>cb p. p)
     \<lparr>proxy_pool = [(example_channel KNOT_VALUE_TYPE_RAW KNOT_EVT_FLAG_NONE)
                      \<lparr>changed_cb := Some 1\<rparr>],
      last_id = 0\<rparr>
     0 (replicate 16 0x41) 200
   = Some (\<lparr>proxy_pool = [(example_channel KNOT_VALUE_TYPE_RAW KNOT_EVT_FLAG_NONE)
                             \<lparr>changed_cb := Some 1, value' := replicate 16 0x41,
                              rlen := 200\<rparr>],
            last_id = 0\<rparr>, 0)
   \<and> KNOT_DATA_RAW_SIZE example_env < unat (200 :: u8)"
  by (simp add: proxy_write_def CONFIG_KNOT_THING_DATA_MAX_def example_defs flag_defs kind_defs)

section \<open>Claim C4\<close>

lemma proxy_read_poll:
  assumes rd: "proxy_read (poll_set_basic t mem) s ident w = Some (s', Some (v, n))"
  shows "wait_resp (proxy_pool s' ! unat ident) = w
         \<and> send (proxy_pool s' ! unat ident) = w
         \<and> v = value' (proxy_pool s' ! unat ident)
         \<and> n = olen (proxy_pool s' ! unat ident)"
proof -
  define p where "p = proxy_pool s ! unat ident"
  define p1 where "p1 = p\<lparr>olen := 0, wait_resp := w\<rparr>"
  have inr: "unat ident < length (proxy_pool s)"
    using rd by (auto simp add: proxy_read_def CONFIG_KNOT_THING_DATA_MAX_def split: if_splits)
  obtain cb where cb: "poll_cb p = Some cb"
    using rd inr
    by (cases "poll_cb p")
       (auto simp add: proxy_read_def CONFIG_KNOT_THING_DATA_MAX_def p_def split: if_splits)
  define q where "q = poll_set_basic t mem cb p1"
  have s': "s' = s\<lparr>proxy_pool := (proxy_pool s)[unat ident := q]\<rparr>"
    and nz: "olen q \<noteq> 0" and v: "v = value' q" and n: "n = olen q"
    using rd inr cb
    by (auto simp add: proxy_read_def CONFIG_KNOT_THING_DATA_MAX_def p_def p1_def q_def Let_def
        split: if_splits)
  have at: "proxy_pool s' ! unat ident = q"
    using inr by (simp add: s')
  have "wait_resp q = w \<and> send q = w"
  proof (cases "knot_proxy_value_set_basic t (Some p1) mem")
    case None
    then have "q = p1" by (simp add: q_def poll_set_basic_def)
    then show ?thesis using nz by (simp add: p1_def)
  next
    case (Some res)
    obtain h r where res: "res = (h, r)" by (cases res)
    show ?thesis
    proof (cases h)
      case None
      then have "q = p1" using Some res by (simp add: q_def poll_set_basic_def)
      then show ?thesis using nz by (simp add: p1_def)
    next
      case (Some q')
      then have call: "knot_proxy_value_set_basic t (Some p1) mem = Some (Some q', r)"
        using \<open>knot_proxy_value_set_basic t (Some p1) mem = Some res\<close> res by simp
      then have qq: "q = q'" by (simp add: q_def poll_set_basic_def)
      have eff: "wait_resp q' = wait_resp p1
         \<and> send q' = (if r then wait_resp p1 else send p1)
         \<and> (\<not> r \<longrightarrow> olen q' = olen p1)"
        using set_basic_effect [OF call] by (cases r) auto
      have "r" using eff nz qq by (auto simp add: p1_def)
      then show ?thesis using eff qq by (simp add: p1_def)
    qed
  qed
  then show ?thesis using at v n by simp
qed

lemma bool_trigger_forward:
  assumes k: "value_type (schema p) = KNOT_VALUE_TYPE_BOOL"
      and cand: "load_bool mem = Some b"
      and trig: "send p \<or> timeout_due t p \<or> check_bool_change p b"
  shows "\<exists>p'. knot_proxy_value_set_basic t (Some p) mem = Some (Some p', True)
           \<and> val_b (value' p') = b \<and> olen p' = 1
           \<and> send p' = wait_resp p \<and> wait_resp p' = wait_resp p"
proof -
  have R: "(send p \<or> snd (check_timeout t p) \<or> check_bool_change p b) = True"
    using trig by (simp add: snd_check_timeout)
  show ?thesis
    unfolding set_basic_bool [OF k cand] R
    by (simp add: check_timeout_fields val_b_set_val_b)
qed

lemma int_trigger_forward:
  assumes k: "value_type (schema p) = KNOT_VALUE_TYPE_INT"
      and cand: "load_32 mem = Some c"
      and trig: "send p \<or> timeout_due t p \<or> check_int_change p c \<or> newly_crossed p c"
  shows "\<exists>p'. knot_proxy_value_set_basic t (Some p) mem = Some (Some p', True)
           \<and> val_i (value' p') = c \<and> olen p' = 4
           \<and> send p' = wait_resp p \<and> wait_resp p' = wait_resp p"
proof -
  have nf: "value_type (schema p) \<noteq> KNOT_VALUE_TYPE_FLOAT"
    using k by (simp add: kind_defs)
  have nc: "((check_int_upper_threshold p c \<and> \<not> upper_flag p)
             \<or> (check_int_lower_threshold p c \<and> \<not> lower_flag p)) = newly_crossed p c"
    using nf by (auto simp add: check_defs newly_crossed_def above_upper_limit_def
        below_lower_limit_def)
  have R: "(send p \<or> snd (check_timeout t p) \<or> check_int_change p c
             \<or> (check_int_upper_threshold p c \<and> \<not> upper_flag p)
             \<or> (check_int_lower_threshold p c \<and> \<not> lower_flag p)) = True"
    using trig nc by (auto simp add: snd_check_timeout)
  show ?thesis
    unfolding set_basic_int [OF k cand] R
    by (simp add: check_timeout_fields val_i_set_val_i)
qed

lemma float_trigger_forward:
  assumes k: "value_type (schema p) = KNOT_VALUE_TYPE_FLOAT"
      and cand: "load_32 mem = Some c"
      and trig: "send p \<or> timeout_due t p \<or> newly_crossed p c"
  shows "\<exists>p'. knot_proxy_value_set_basic t (Some p) mem = Some (Some p', True)
           \<and> val_f (value' p') = c \<and> olen p' = 4
           \<and> send p' = wait_resp p \<and> wait_resp p' = wait_resp p"
proof -
  have nc: "((check_float_upper_threshold p c \<and> \<not> upper_flag p)
             \<or> (check_float_lower_threshold p c \<and> \<not> lower_flag p)) = newly_crossed p c"
    using k by (auto simp add: check_defs newly_crossed_def above_upper_limit_def
        below_lower_limit_def)
  have R: "(send p \<or> snd (check_timeout t p) \<or> check_int_change_float p c
             \<or> (check_float_upper_threshold p c \<and> \<not> upper_flag p)
             \<or> (check_float_lower_threshold p c \<and> \<not> lower_flag p)) = True"
    using trig nc by (auto simp add: snd_check_timeout)
  show ?thesis
    unfolding set_basic_float [OF k cand] R
    by (simp add: check_timeout_fields val_f_set_val_f)
qed

lemma raw_trigger_forward:
  assumes k: "value_type (schema p) = KNOT_VALUE_TYPE_RAW"
      and len0: "0 \<le> len"
      and src: "nat len \<le> length raw"
      and cap: "KNOT_DATA_RAW_SIZE env \<le> length (value' p)"
      and inv: "unat (rlen p) \<le> KNOT_DATA_RAW_SIZE env"
      and trig: "send p \<or> timeout_due t p
                 \<or> (KNOT_EVT_FLAG_CHANGE AND event_flags (config p) \<noteq> 0
                     \<and> (uint (rlen p) \<noteq> len
                         \<or> take (nat len) (value' p) \<noteq> take (nat len) raw))"
  shows "\<exists>p'. knot_proxy_value_set_string env t (Some p) raw len = Some (Some p', True)
           \<and> value' p' = take (nat (min (int (KNOT_DATA_RAW_SIZE env)) len)) raw
                          @ drop (nat (min (int (KNOT_DATA_RAW_SIZE env)) len)) (value' p)
           \<and> rlen p' = of_int (min (int (KNOT_DATA_RAW_SIZE env)) len)
           \<and> olen p' = of_int (min (int (KNOT_DATA_RAW_SIZE env)) len)
           \<and> send p' = wait_resp p \<and> wait_resp p' = wait_resp p"
proof -
  define change where "change = (KNOT_EVT_FLAG_CHANGE AND event_flags (config p) \<noteq> 0
                     \<and> (uint (rlen p) \<noteq> len
                         \<or> take (nat len) (value' p) \<noteq> take (nat len) raw))"
  have fits: "uint (rlen p) = len \<Longrightarrow> nat len \<le> length (value' p)"
  proof -
    assume "uint (rlen p) = len"
    then have "nat len = unat (rlen p)" by (simp add: unat_eq_nat_uint)
    then show ?thesis using inv cap by simp
  qed
  have ch: "check_raw_change p raw len = Some change"
    using src fits by (auto simp add: check_raw_change_def change_def)
  have idle: "\<not> (\<not> send p \<and> \<not> change \<and> \<not> snd (check_timeout t p))"
    using trig by (auto simp add: snd_check_timeout change_def)
  have good: "\<not> (min (int (KNOT_DATA_RAW_SIZE env)) len < 0
              \<or> length raw < nat (min (int (KNOT_DATA_RAW_SIZE env)) len)
              \<or> length (value' p) < nat (min (int (KNOT_DATA_RAW_SIZE env)) len))"
    using len0 src cap by auto
  show ?thesis
    unfolding set_string_raw [OF k ch]
    using idle good by (simp add: check_timeout_fields)
qed

theorem trigger_leaves_channel_not_pending:
  "knot_proxy_value_set_basic 0
     (Some (example_channel KNOT_VALUE_TYPE_BOOL KNOT_EVT_FLAG_CHANGE)) [1]
   = Some (Some ((example_channel KNOT_VALUE_TYPE_BOOL KNOT_EVT_FLAG_CHANGE)
                   \<lparr>olen := 1, value' := 1 # replicate 15 0\<rparr>), True)
   \<and> \<not> send ((example_channel KNOT_VALUE_TYPE_BOOL KNOT_EVT_FLAG_CHANGE)
                   \<lparr>olen := 1, value' := 1 # replicate 15 0\<rparr>)"
  by (simp add: knot_proxy_value_set_basic_def example_defs flag_defs kind_defs check_defs
    check_timeout_def load_bool_def set_val_b_def val_b_Cons val_b_zero)

text \<open>
  Claim C4, as amended. The claim says that a set call whose trigger condition holds
  sets \<open>pending_send\<close>; the code assigns \<open>send = wait_resp\<close>, so on a channel that is
  not in await-response mode a triggering call leaves \<open>send\<close> false
  (\<open>trigger_leaves_channel_not_pending\<close>: a Bool channel with OnChange, stored false,
  candidate true). What holds: whenever the trigger condition holds (a send is forced,
  the timeout is due, the candidate differs from the stored value under OnChange, or a
  threshold is newly crossed), the set call returns true, the candidate has replaced
  the stored value (on a Raw channel its first \<open>min(len, capacity)\<close> bytes, with that
  length as \<open>rlen\<close>), \<open>olen\<close> is the length to transmit, \<open>send\<close> equals \<open>wait_resp\<close>,
  and the call has not changed \<open>wait_resp\<close>. This is stated for a Bool, an Int32 and a
  Raw channel with every trigger condition, and for a Float32 channel with the forced,
  timeout and threshold conditions. Conversely every set call that returns true has had
  these effects, on every kind. The await-response mode is not an argument of set:
  \<open>proxy_read\<close> stores its \<open>wait_resp\<close> argument before it invokes the poll callback,
  so when a poll whose callback calls \<open>knot_proxy_value_set_basic\<close> hands back a
  value, \<open>wait_resp\<close> and \<open>send\<close> both equal the mode the caller of \<open>proxy_read\<close>
  asked for.
\<close>

theorem trigger_effect:
  "(value_type (schema p) = KNOT_VALUE_TYPE_BOOL \<and> load_bool mem = Some b
      \<and> (send p \<or> timeout_due t p \<or> check_bool_change p b) \<longrightarrow>
      (\<exists>q. knot_proxy_value_set_basic t (Some p) mem = Some (Some q, True)
           \<and> val_b (value' q) = b \<and> olen q = 1
           \<and> send q = wait_resp p \<and> wait_resp q = wait_resp p))
   \<and> (value_type (schema p) = KNOT_VALUE_TYPE_INT \<and> load_32 mem = Some c
      \<and> (send p \<or> timeout_due t p \<or> check_int_change p c \<or> newly_crossed p c) \<longrightarrow>
      (\<exists>q. knot_proxy_value_set_basic t (Some p) mem = Some (Some q, True)
           \<and> val_i (value' q) = c \<and> olen q = 4
           \<and> send q = wait_resp p \<and> wait_resp q = wait_resp p))
   \<and> (value_type (schema p) = KNOT_VALUE_TYPE_FLOAT \<and> load_32 mem = Some c
      \<and> (send p \<or> timeout_due t p \<or> newly_crossed p c) \<longrightarrow>
      (\<exists>q. knot_proxy_value_set_basic t (Some p) mem = Some (Some q, True)
           \<and> val_f (value' q) = c \<and> olen q = 4
           \<and> send q = wait_resp p \<and> wait_resp q = wait_resp p))
   \<and> (value_type (schema p) = KNOT_VALUE_TYPE_RAW \<and> 0 \<le> len \<and> nat len \<le> length raw
      \<and> KNOT_DATA_RAW_SIZE env \<le> length (value' p)
      \<and> unat (rlen p) \<le> KNOT_DATA_RAW_SIZE env
      \<and> (send p \<or> timeout_due t p
          \<or> (KNOT_EVT_FLAG_CHANGE AND event_flags (config p) \<noteq> 0
              \<and> (uint (rlen p) \<noteq> len
                  \<or> take (nat len) (value' p) \<noteq> take (nat len) raw))) \<longrightarrow>
      (\<exists>q. knot_proxy_value_set_string env t (Some p) raw len = Some (Some q, True)
           \<and> value' q = take (nat (min (int (KNOT_DATA_RAW_SIZE env)) len)) raw
                         @ drop (nat (min (int (KNOT_DATA_RAW_SIZE env)) len)) (value' p)
           \<and> rlen q = of_int (min (int (KNOT_DATA_RAW_SIZE env)) len)
           \<and> olen q = of_int (min (int (KNOT_DATA_RAW_SIZE env)) len)
           \<and> send q = wait_resp p \<and> wait_resp q = wait_resp p))
   \<and> (knot_proxy_value_set_basic t (Some p) mem = Some (Some p', True) \<longrightarrow>
      send p' = wait_resp p \<and> wait_resp p' = wait_resp p
      \<and> ((value_type (schema p) = KNOT_VALUE_TYPE_BOOL
             \<and> load_bool mem = Some (val_b (value' p')) \<and> olen p' = 1)
          \<or> (value_type (schema p) = KNOT_VALUE_TYPE_INT
             \<and> load_32 mem = Some (val_i (value' p')) \<and> olen p' = 4)
          \<or> (value_type (schema p) = KNOT_VALUE_TYPE_FLOAT
             \<and> load_32 mem = Some (val_f (value' p')) \<and> olen p' = 4)))
   \<and> (knot_proxy_value_set_string env t (Some p) raw len = Some (Some p'', True) \<longrightarrow>
      send p'' = wait_resp p \<and> wait_resp p'' = wait_resp p
      \<and> value_type (schema p) = KNOT_VALUE_TYPE_RAW \<and> 0 \<le> len
      \<and> olen p'' = of_int (min (int (KNOT_DATA_RAW_SIZE env)) len)
      \<and> rlen p'' = of_int (min (int (KNOT_DATA_RAW_SIZE env)) len)
      \<and> value' p'' = take (nat (min (int (KNOT_DATA_RAW_SIZE env)) len)) raw
                      @ drop (nat (min (int (KNOT_DATA_RAW_SIZE env)) len)) (value' p))
   \<and> (proxy_read (poll_set_basic t mem) s ident w = Some (s', Some (v, n)) \<longrightarrow>
      wait_resp (proxy_pool s' ! unat ident) = w
      \<and> send (proxy_pool s' ! unat ident) = w
      \<and> v = value' (proxy_pool s' ! unat ident)
      \<and> n = olen (proxy_pool s' ! unat ident))"
proof -
  have fb: "value_type (schema p) = KNOT_VALUE_TYPE_BOOL \<and> load_bool mem = Some b
      \<and> (send p \<or> timeout_due t p \<or> check_bool_change p b) \<longrightarrow>
      (\<exists>q. knot_proxy_value_set_basic t (Some p) mem = Some (Some q, True)
           \<and> val_b (value' q) = b \<and> olen q = 1
           \<and> send q = wait_resp p \<and> wait_resp q = wait_resp p)"
    using bool_trigger_forward [of p mem b t] by blast
  have fi: "value_type (schema p) = KNOT_VALUE_TYPE_INT \<and> load_32 mem = Some c
      \<and> (send p \<or> timeout_due t p \<or> check_int_change p c \<or> newly_crossed p c) \<longrightarrow>
      (\<exists>q. knot_proxy_value_set_basic t (Some p) mem = Some (Some q, True)
           \<and> val_i (value' q) = c \<and> olen q = 4
           \<and> send q = wait_resp p \<and> wait_resp q = wait_resp p)"
    using int_trigger_forward [of p mem c t] by blast
  have ff: "value_type (schema p) = KNOT_VALUE_TYPE_FLOAT \<and> load_32 mem = Some c
      \<and> (send p \<or> timeout_due t p \<or> newly_crossed p c) \<longrightarrow>
      (\<exists>q. knot_proxy_value_set_basic t (Some p) mem = Some (Some q, True)
           \<and> val_f (value' q) = c \<and> olen q = 4
           \<and> send q = wait_resp p \<and> wait_resp q = wait_resp p)"
    using float_trigger_forward [of p mem c t] by blast
  have fr: "value_type (schema p) = KNOT_VALUE_TYPE_RAW \<and> 0 \<le> len \<and> nat len \<le> length raw
      \<and> KNOT_DATA_RAW_SIZE env \<le> length (value' p)
      \<and> unat (rlen p) \<le> KNOT_DATA_RAW_SIZE env
      \<and> (send p \<or> timeout_due t p
          \<or> (KNOT_EVT_FLAG_CHANGE AND event_flags (config p) \<noteq> 0
              \<and> (uint (rlen p) \<noteq> len
                  \<or> take (nat len) (value' p) \<noteq> take (nat len) raw))) \<longrightarrow>
      (\<exists>q. knot_proxy_value_set_string env t (Some p) raw len = Some (Some q, True)
           \<and> value' q = take (nat (min (int (KNOT_DATA_RAW_SIZE env)) len)) raw
                         @ drop (nat (min (int (KNOT_DATA_RAW_SIZE env)) len)) (value' p)
           \<and> rlen q = of_int (min (int (KNOT_DATA_RAW_SIZE env)) len)
           \<and> olen q = of_int (min (int (KNOT_DATA_RAW_SIZE env)) len)
           \<and> send q = wait_resp p \<and> wait_resp q = wait_resp p)"
    using raw_trigger_forward [of p len raw env t] by blast
  have bb: "knot_proxy_value_set_basic t (Some p) mem = Some (Some p', True) \<longrightarrow>
      send p' = wait_resp p \<and> wait_resp p' = wait_resp p
      \<and> ((value_type (schema p) = KNOT_VALUE_TYPE_BOOL
             \<and> load_bool mem = Some (val_b (value' p')) \<and> olen p' = 1)
          \<or> (value_type (schema p) = KNOT_VALUE_TYPE_INT
             \<and> load_32 mem = Some (val_i (value' p')) \<and> olen p' = 4)
          \<or> (value_type (schema p) = KNOT_VALUE_TYPE_FLOAT
             \<and> load_32 mem = Some (val_f (value' p')) \<and> olen p' = 4))"
  proof
    assume call: "knot_proxy_value_set_basic t (Some p) mem = Some (Some p', True)"
    show "send p' = wait_resp p \<and> wait_resp p' = wait_resp p
      \<and> ((value_type (schema p) = KNOT_VALUE_TYPE_BOOL
             \<and> load_bool mem = Some (val_b (value' p')) \<and> olen p' = 1)
          \<or> (value_type (schema p) = KNOT_VALUE_TYPE_INT
             \<and> load_32 mem = Some (val_i (value' p')) \<and> olen p' = 4)
          \<or> (value_type (schema p) = KNOT_VALUE_TYPE_FLOAT
             \<and> load_32 mem = Some (val_f (value' p')) \<and> olen p' = 4))"
      using set_basic_effect [OF call] by simp
  qed
  have bs: "knot_proxy_value_set_string env t (Some p) raw len = Some (Some p'', True) \<longrightarrow>
      send p'' = wait_resp p \<and> wait_resp p'' = wait_resp p
      \<and> value_type (schema p) = KNOT_VALUE_TYPE_RAW \<and> 0 \<le> len
      \<and> olen p'' = of_int (min (int (KNOT_DATA_RAW_SIZE env)) len)
      \<and> rlen p'' = of_int (min (int (KNOT_DATA_RAW_SIZE env)) len)
      \<and> value' p'' = take (nat (min (int (KNOT_DATA_RAW_SIZE env)) len)) raw
                      @ drop (nat (min (int (KNOT_DATA_RAW_SIZE env)) len)) (value' p)"
  proof
    assume call: "knot_proxy_value_set_string env t (Some p) raw len = Some (Some p'', True)"
    show "send p'' = wait_resp p \<and> wait_resp p'' = wait_resp p
      \<and> value_type (schema p) = KNOT_VALUE_TYPE_RAW \<and> 0 \<le> len
      \<and> olen p'' = of_int (min (int (KNOT_DATA_RAW_SIZE env)) len)
      \<and> rlen p'' = of_int (min (int (KNOT_DATA_RAW_SIZE env)) len)
      \<and> value' p'' = take (nat (min (int (KNOT_DATA_RAW_SIZE env)) len)) raw
                      @ drop (nat (min (int (KNOT_DATA_RAW_SIZE env)) len)) (value' p)"
      using set_string_effect [OF call] by simp
  qed
  have rd: "proxy_read (poll_set_basic t mem) s ident w = Some (s', Some (v, n)) \<longrightarrow>
      wait_resp (proxy_pool s' ! unat ident) = w
      \<and> send (proxy_pool s' ! unat ident) = w
      \<and> v = value' (proxy_pool s' ! unat ident)
      \<and> n = olen (proxy_pool s' ! unat ident)"
    using proxy_read_poll [of t mem s ident w s' v n] by blast
  show ?thesis
    by (intro conjI) (rule fb fi ff fr bb bs rd)+
qed

theorem trigger_effect_witness:
  "value_type (schema ((example_channel KNOT_VALUE_TYPE_BOOL KNOT_EVT_FLAG_CHANGE)
                         \<lparr>wait_resp := True\<rparr>)) = KNOT_VALUE_TYPE_BOOL
   \<and> load_bool [1] = Some True
   \<and> check_bool_change ((example_channel KNOT_VALUE_TYPE_BOOL KNOT_EVT_FLAG_CHANGE)
                           \<lparr>wait_resp := True\<rparr>) True
   \<and> (\<exists>q. knot_proxy_value_set_basic 0
              (Some ((example_channel KNOT_VALUE_TYPE_BOOL KNOT_EVT_FLAG_CHANGE)
                       \<lparr>wait_resp := True\<rparr>)) [1] = Some (Some q, True)
          \<and> val_b (value' q) = True \<and> olen q = 1 \<and> send q = True \<and> wait_resp q = True)"
proof -
  have kind: "value_type (schema ((example_channel KNOT_VALUE_TYPE_BOOL KNOT_EVT_FLAG_CHANGE)
                         \<lparr>wait_resp := True\<rparr>)) = KNOT_VALUE_TYPE_BOOL"
    by (simp add: example_defs)
  have cand: "load_bool [1] = Some True"
    by (simp add: load_bool_def)
  have change: "check_bool_change ((example_channel KNOT_VALUE_TYPE_BOOL KNOT_EVT_FLAG_CHANGE)
                           \<lparr>wait_resp := True\<rparr>) True"
    by (simp add: check_bool_change_def example_defs flag_defs val_b_zero)
  have mode: "wait_resp ((example_channel KNOT_VALUE_TYPE_BOOL KNOT_EVT_FLAG_CHANGE)
                           \<lparr>wait_resp := True\<rparr>) = True"
    by simp
  have "\<exists>q. knot_proxy_value_set_basic 0
              (Some ((example_channel KNOT_VALUE_TYPE_BOOL KNOT_EVT_FLAG_CHANGE)
                       \<lparr>wait_resp := True\<rparr>)) [1] = Some (Some q, True)
          \<and> val_b (value' q) = True \<and> olen q = 1
          \<and> send q = wait_resp ((example_channel KNOT_VALUE_TYPE_BOOL KNOT_EVT_FLAG_CHANGE)
                           \<lparr>wait_resp := True\<rparr>)
          \<and> wait_resp q = wait_resp ((example_channel KNOT_VALUE_TYPE_BOOL KNOT_EVT_FLAG_CHANGE)
                           \<lparr>wait_resp := True\<rparr>)"
    using trigger_effect [of "(example_channel KNOT_VALUE_TYPE_BOOL KNOT_EVT_FLAG_CHANGE)
                           \<lparr>wait_resp := True\<rparr>" "[1]" True 0] kind cand change
    by blast
  then show ?thesis
    using kind cand change unfolding mode by blast
qed

section \<open>Claim C5\<close>

text \<open>
  Claim C5 (a set call on a channel whose kind the variant does not support returns
  false and changes nothing, \<open>last_timer_tick\<close> included).
  \<open>knot_proxy_value_set_basic\<close> calls \<open>check_timeout\<close> before it switches on the kind
  (\<open>knot_proxy_value_set_string\<close> checks the kind first). On a Raw channel with OnTimer
  and a period of 5 seconds whose last tick is 0, a call at uptime 5000 ms returns false
  and has moved \<open>last_timeout\<close> to 5000.
\<close>

theorem set_basic_unsupported_kind_moves_timer:
  "last_timeout (timer_channel KNOT_VALUE_TYPE_RAW 5) = 0
   \<and> knot_proxy_value_set_basic 5000 (Some (timer_channel KNOT_VALUE_TYPE_RAW 5)) [1, 0, 0, 0]
       = Some (Some ((timer_channel KNOT_VALUE_TYPE_RAW 5)\<lparr>last_timeout := 5000\<rparr>), False)"
  by (simp add: knot_proxy_value_set_basic_def example_defs flag_defs kind_defs check_timeout_def)

section \<open>Claim C6\<close>

theorem register_accepts_empty_name:
  "\<not> isl (knot_proxy_register example_env (proxy_init example_env (static_storage example_env 3))
             0 (Some []) 0 KNOT_VALUE_TYPE_INT 0 None None)"
  by (simp add: knot_proxy_register_def proxy_init_def static_storage_def
    CONFIG_KNOT_THING_DATA_MAX_def example_env_def Let_def)

text \<open>
  Claim C6, as amended. The claim says that registering with an empty name fails; the
  code tests \<open>!name\<close>, the null pointer, and accepts the empty string
  (\<open>register_accepts_empty_name\<close>). What holds: \<open>knot_proxy_register\<close> fails exactly
  when \<open>id\<close> is outside the table, the slot of \<open>id\<close> is taken, the validator rejects
  \<open>(type_id, value_type, unit)\<close> or the name pointer is null, and the failure reported is
  the first of these in that order (CapacityExceeded, DuplicateId, InvalidSchema). On
  success the slot holds the identifier, the schema and the two callbacks; \<open>send\<close>,
  \<open>upper_flag\<close> and \<open>lower_flag\<close> are false, \<open>olen\<close> is zero and no event flag is
  set. \<open>wait_resp\<close>, \<open>rlen\<close> and \<open>last_timeout\<close> are not written: they keep what the
  slot held, which is false and zero when the slot is still as \<open>proxy_init\<close> left it.
\<close>

theorem register_outcome:
  "(isl (knot_proxy_register env s i nm tid vt un ccb pcb) \<longleftrightarrow>
      CONFIG_KNOT_THING_DATA_MAX s \<le> unat i \<or> id' (proxy_pool s ! unat i) \<noteq> 0xff
      \<or> knot_schema_is_valid env tid vt un \<noteq> 0 \<or> nm = None)
   \<and> (knot_proxy_register env s i nm tid vt un ccb pcb = Inl CapacityExceeded \<longleftrightarrow>
        CONFIG_KNOT_THING_DATA_MAX s \<le> unat i)
   \<and> (knot_proxy_register env s i nm tid vt un ccb pcb = Inl DuplicateId \<longleftrightarrow>
        unat i < CONFIG_KNOT_THING_DATA_MAX s \<and> id' (proxy_pool s ! unat i) \<noteq> 0xff)
   \<and> (knot_proxy_register env s i nm tid vt un ccb pcb = Inl InvalidSchema \<longleftrightarrow>
        unat i < CONFIG_KNOT_THING_DATA_MAX s \<and> id' (proxy_pool s ! unat i) = 0xff
        \<and> (knot_schema_is_valid env tid vt un \<noteq> 0 \<or> nm = None))
   \<and> (knot_proxy_register env s i nm tid vt un ccb pcb = Inr s' \<longrightarrow>
        id' (proxy_pool s' ! unat i) = i
        \<and> type_id (schema (proxy_pool s' ! unat i)) = tid
        \<and> value_type (schema (proxy_pool s' ! unat i)) = vt
        \<and> unit' (schema (proxy_pool s' ! unat i)) = un
        \<and> changed_cb (proxy_pool s' ! unat i) = ccb
        \<and> poll_cb (proxy_pool s' ! unat i) = pcb
        \<and> \<not> send (proxy_pool s' ! unat i)
        \<and> \<not> upper_flag (proxy_pool s' ! unat i)
        \<and> \<not> lower_flag (proxy_pool s' ! unat i)
        \<and> olen (proxy_pool s' ! unat i) = 0
        \<and> event_flags (config (proxy_pool s' ! unat i)) = KNOT_EVT_FLAG_NONE
        \<and> wait_resp (proxy_pool s' ! unat i) = wait_resp (proxy_pool s ! unat i)
        \<and> rlen (proxy_pool s' ! unat i) = rlen (proxy_pool s ! unat i)
        \<and> last_timeout (proxy_pool s' ! unat i) = last_timeout (proxy_pool s ! unat i)
        \<and> (proxy_pool s ! unat i = (zero_proxy env)\<lparr>id' := 0xff\<rparr> \<longrightarrow>
             \<not> wait_resp (proxy_pool s' ! unat i)
             \<and> rlen (proxy_pool s' ! unat i) = 0
             \<and> last_timeout (proxy_pool s' ! unat i) = 0))"
proof (cases "CONFIG_KNOT_THING_DATA_MAX s \<le> unat i")
  case True
  then show ?thesis
    by (simp add: register_failures(1))
next
  case False
  then have inr: "unat i < CONFIG_KNOT_THING_DATA_MAX s"
    by simp
  show ?thesis
  proof (cases "id' (proxy_pool s ! unat i) = 0xff")
    case False
    then show ?thesis
      using inr by (simp add: register_failures(2))
  next
    case True
    note free = True
    show ?thesis
    proof (cases "knot_schema_is_valid env tid vt un \<noteq> 0 \<or> nm = None")
      case True
      then show ?thesis
        using inr free by (simp add: register_failures(3))
    next
      case False
      then obtain n where ok: "knot_schema_is_valid env tid vt un = 0" "nm = Some n"
        by auto
      have len: "unat i < length (proxy_pool s)"
        using inr by (simp add: CONFIG_KNOT_THING_DATA_MAX_def)
      show ?thesis
        unfolding register_success [OF inr free ok]
        using inr free ok len by (auto simp add: zero_proxy_def)
    qed
  qed
qed


theorem register_outcome_witness:
  "knot_proxy_register example_env (proxy_init example_env (static_storage example_env 3))
     3 (Some ''LED'') 0 KNOT_VALUE_TYPE_BOOL 0 None None = Inl CapacityExceeded
   \<and> knot_proxy_register example_env (proxy_init example_env (static_storage example_env 3))
     1 None 0 KNOT_VALUE_TYPE_BOOL 0 None None = Inl InvalidSchema
   \<and> \<not> isl (knot_proxy_register example_env
               (proxy_init example_env (static_storage example_env 3))
               1 (Some ''LED'') 0 KNOT_VALUE_TYPE_BOOL 0 (Some 1) (Some 2))
   \<and> \<not> send (proxy_pool (projr (knot_proxy_register example_env
               (proxy_init example_env (static_storage example_env 3))
               1 (Some ''LED'') 0 KNOT_VALUE_TYPE_BOOL 0 (Some 1) (Some 2))) ! unat (1 :: u8))
   \<and> \<not> wait_resp (proxy_pool (projr (knot_proxy_register example_env
               (proxy_init example_env (static_storage example_env 3))
               1 (Some ''LED'') 0 KNOT_VALUE_TYPE_BOOL 0 (Some 1) (Some 2))) ! unat (1 :: u8))"
proof -
  let ?s = "proxy_init example_env (static_storage example_env 3)"
  have size: "CONFIG_KNOT_THING_DATA_MAX ?s = 3"
    by (simp add: proxy_init_def static_storage_def CONFIG_KNOT_THING_DATA_MAX_def)
  have slot: "proxy_pool ?s ! unat (1 :: u8) = (zero_proxy example_env)\<lparr>id' := 0xff\<rparr>"
    by (simp add: proxy_init_def static_storage_def)
  have valid: "knot_schema_is_valid example_env 0 KNOT_VALUE_TYPE_BOOL 0 = 0"
    by (simp add: example_env_def)
  have a: "knot_proxy_register example_env ?s 3 (Some ''LED'') 0 KNOT_VALUE_TYPE_BOOL 0 None None
           = Inl CapacityExceeded"
    using register_outcome [of example_env ?s 3 "Some ''LED''" 0 KNOT_VALUE_TYPE_BOOL 0 None None]
      size by simp
  have b: "knot_proxy_register example_env ?s 1 None 0 KNOT_VALUE_TYPE_BOOL 0 None None
           = Inl InvalidSchema"
    using register_outcome [of example_env ?s 1 None 0 KNOT_VALUE_TYPE_BOOL 0 None None]
      size slot by simp
  have c: "\<not> isl (knot_proxy_register example_env ?s 1 (Some ''LED'') 0 KNOT_VALUE_TYPE_BOOL 0
                    (Some 1) (Some 2))"
    using register_outcome [of example_env ?s 1 "Some ''LED''" 0 KNOT_VALUE_TYPE_BOOL 0
        "Some 1" "Some 2"] size slot valid by simp
  then have r: "knot_proxy_register example_env ?s 1 (Some ''LED'') 0 KNOT_VALUE_TYPE_BOOL 0
                    (Some 1) (Some 2)
      = Inr (projr (knot_proxy_register example_env ?s 1 (Some ''LED'') 0 KNOT_VALUE_TYPE_BOOL 0
                    (Some 1) (Some 2)))"
    by (cases "knot_proxy_register example_env ?s 1 (Some ''LED'') 0 KNOT_VALUE_TYPE_BOOL 0
                    (Some 1) (Some 2)") simp_all
  have d: "\<not> send (proxy_pool (projr (knot_proxy_register example_env ?s 1 (Some ''LED'') 0
                    KNOT_VALUE_TYPE_BOOL 0 (Some 1) (Some 2))) ! unat (1 :: u8))
           \<and> \<not> wait_resp (proxy_pool (projr (knot_proxy_register example_env ?s 1 (Some ''LED'') 0
                    KNOT_VALUE_TYPE_BOOL 0 (Some 1) (Some 2))) ! unat (1 :: u8))"
    using register_outcome [of example_env ?s 1 "Some ''LED''" 0 KNOT_VALUE_TYPE_BOOL 0
        "Some 1" "Some 2" "projr (knot_proxy_register example_env ?s 1 (Some ''LED'') 0
                    KNOT_VALUE_TYPE_BOOL 0 (Some 1) (Some 2))"] r slot
    by blast
  show ?thesis
    using a b c d by blast
qed

section \<open>Claim C7\<close>

lemma set_config_unknown:
  "CONFIG_KNOT_THING_DATA_MAX s \<le> unat i \<or> id' (proxy_pool s ! unat i) \<noteq> i
     \<Longrightarrow> knot_proxy_set_config env s i args = Some (s, False)"
  by (auto simp add: knot_proxy_set_config_def Let_def)

lemma set_config_undefined:
  assumes "unat i < CONFIG_KNOT_THING_DATA_MAX s" and "id' (proxy_pool s ! unat i) = i"
      and "read_events (value_type (schema (proxy_pool s ! unat i))) (initial_locals env) args
           = None"
  shows "knot_proxy_set_config env s i args = None"
  using assms by (simp add: knot_proxy_set_config_def Let_def)

lemma set_config_invalid_flags:
  assumes "unat i < CONFIG_KNOT_THING_DATA_MAX s" and "id' (proxy_pool s ! unat i) = i"
      and "read_events (value_type (schema (proxy_pool s ! unat i))) (initial_locals env) args
           = Some InvalidFlags"
  shows "knot_proxy_set_config env s i args = Some (s, False)"
  using assms by (simp add: knot_proxy_set_config_def Let_def)

lemma set_config_rejected:
  assumes "unat i < CONFIG_KNOT_THING_DATA_MAX s" and "id' (proxy_pool s ! unat i) = i"
      and "read_events (value_type (schema (proxy_pool s ! unat i))) (initial_locals env) args
           = Some (Done acc)"
      and "knot_config_is_valid env (event_flags acc)
             (value_type (schema (proxy_pool s ! unat i)))
             (time_sec acc) (lower_limit acc) (upper_limit acc) \<noteq> 0"
  shows "knot_proxy_set_config env s i args = Some (s, False)"
  using assms by (simp add: knot_proxy_set_config_def Let_def)

lemma set_config_accepted:
  assumes "unat i < CONFIG_KNOT_THING_DATA_MAX s" and "id' (proxy_pool s ! unat i) = i"
      and "read_events (value_type (schema (proxy_pool s ! unat i))) (initial_locals env) args
           = Some (Done acc)"
      and "knot_config_is_valid env (event_flags acc)
             (value_type (schema (proxy_pool s ! unat i)))
             (time_sec acc) (lower_limit acc) (upper_limit acc) = 0"
  shows "knot_proxy_set_config env s i args =
     Some (s\<lparr>proxy_pool := (proxy_pool s)
             [unat i := (proxy_pool s ! unat i)
                \<lparr>config := (config (proxy_pool s ! unat i))
                   \<lparr>upper_limit :=
                      (if event_flags acc AND KNOT_EVT_FLAG_UPPER_THRESHOLD \<noteq> 0
                       then upper_limit acc
                       else upper_limit (config (proxy_pool s ! unat i))),
                    lower_limit :=
                      (if event_flags acc AND KNOT_EVT_FLAG_LOWER_THRESHOLD \<noteq> 0
                       then lower_limit acc
                       else lower_limit (config (proxy_pool s ! unat i))),
                    event_flags := event_flags acc,
                    time_sec := time_sec acc\<rparr>\<rparr>]\<rparr>, True)"
  using assms by (simp add: knot_proxy_set_config_def Let_def)


lemma ex_rd2: "read_events KNOT_VALUE_TYPE_INT (initial_locals example_env)
               [VaInt 1, VaInt 5, VaInt 4, VaInt 100000, VaInt 0]
   = Some (Done ((initial_locals example_env)
             \<lparr>time_sec := 5,
              upper_limit := set_val_i 100000 (upper_limit (initial_locals example_env)),
              event_flags := 5\<rparr>))"
  by (simp add: flag_defs kind_defs initial_locals_def)

lemma ex_slot:
  "CONFIG_KNOT_THING_DATA_MAX
     \<lparr>proxy_pool = [example_channel KNOT_VALUE_TYPE_INT KNOT_EVT_FLAG_CHANGE], last_id = 0\<rparr> = 1"
  "id' (proxy_pool \<lparr>proxy_pool = [example_channel KNOT_VALUE_TYPE_INT KNOT_EVT_FLAG_CHANGE],
          last_id = 0\<rparr> ! unat (0 :: u8)) = 0"
  "value_type (schema (proxy_pool
      \<lparr>proxy_pool = [example_channel KNOT_VALUE_TYPE_INT KNOT_EVT_FLAG_CHANGE],
          last_id = 0\<rparr> ! unat (0 :: u8))) = KNOT_VALUE_TYPE_INT"
  by (simp_all add: CONFIG_KNOT_THING_DATA_MAX_def example_channel_def)


text \<open>
  Claim C7 (configuration replacement is atomic). A call of \<open>knot_proxy_set_config\<close>
  that returns false leaves the whole table, and so the channel's event flags, period and
  limits, exactly as it was; it returns false for an identifier that is outside the
  table or not registered, for an event in the argument list that is not one of the
  options, and when \<open>knot_config_is_valid\<close> rejects the parsed combination. A call
  that returns true has parsed its arguments to the end, and the channel's event flags
  and period are then the parsed ones, whatever they were before; a limit is replaced
  when its threshold flag is among the new flags.
\<close>

theorem config_replacement_atomic:
  "(knot_proxy_set_config env s i args = Some (s', False) \<longrightarrow> s' = s)
   \<and> (CONFIG_KNOT_THING_DATA_MAX s \<le> unat i \<or> id' (proxy_pool s ! unat i) \<noteq> i \<longrightarrow>
        knot_proxy_set_config env s i args = Some (s, False))
   \<and> (unat i < CONFIG_KNOT_THING_DATA_MAX s \<and> id' (proxy_pool s ! unat i) = i
        \<and> read_events (value_type (schema (proxy_pool s ! unat i))) (initial_locals env) args
            = Some InvalidFlags \<longrightarrow>
        knot_proxy_set_config env s i args = Some (s, False))
   \<and> (unat i < CONFIG_KNOT_THING_DATA_MAX s \<and> id' (proxy_pool s ! unat i) = i
        \<and> read_events (value_type (schema (proxy_pool s ! unat i))) (initial_locals env) args
            = Some (Done acc)
        \<and> knot_config_is_valid env (event_flags acc)
             (value_type (schema (proxy_pool s ! unat i)))
             (time_sec acc) (lower_limit acc) (upper_limit acc) \<noteq> 0 \<longrightarrow>
        knot_proxy_set_config env s i args = Some (s, False))
   \<and> (knot_proxy_set_config env s i args = Some (s', True) \<longrightarrow>
        (\<exists>new. read_events (value_type (schema (proxy_pool s ! unat i))) (initial_locals env)
                 args = Some (Done new)
           \<and> event_flags (config (proxy_pool s' ! unat i)) = event_flags new
           \<and> time_sec (config (proxy_pool s' ! unat i)) = time_sec new
           \<and> upper_limit (config (proxy_pool s' ! unat i))
               = (if event_flags new AND KNOT_EVT_FLAG_UPPER_THRESHOLD \<noteq> 0
                  then upper_limit new else upper_limit (config (proxy_pool s ! unat i)))
           \<and> lower_limit (config (proxy_pool s' ! unat i))
               = (if event_flags new AND KNOT_EVT_FLAG_LOWER_THRESHOLD \<noteq> 0
                  then lower_limit new else lower_limit (config (proxy_pool s ! unat i)))))"
proof -
  have fail: "knot_proxy_set_config env s i args = Some (s', False) \<longrightarrow> s' = s"
  proof (cases "CONFIG_KNOT_THING_DATA_MAX s \<le> unat i \<or> id' (proxy_pool s ! unat i) \<noteq> i")
    case True
    then show ?thesis
      by (simp add: set_config_unknown)
  next
    case False
    then have known: "unat i < CONFIG_KNOT_THING_DATA_MAX s" "id' (proxy_pool s ! unat i) = i"
      by auto
    show ?thesis
    proof (cases "read_events (value_type (schema (proxy_pool s ! unat i)))
                    (initial_locals env) args")
      case None
      then show ?thesis
        by (simp add: set_config_undefined [OF known])
    next
      case (Some res)
      show ?thesis
      proof (cases res)
        case InvalidFlags
        then show ?thesis
          using Some by (simp add: set_config_invalid_flags [OF known])
      next
        case (Done new)
        then have rd: "read_events (value_type (schema (proxy_pool s ! unat i)))
                    (initial_locals env) args = Some (Done new)"
          using Some by simp
        show ?thesis
        proof (cases "knot_config_is_valid env (event_flags new)
             (value_type (schema (proxy_pool s ! unat i)))
             (time_sec new) (lower_limit new) (upper_limit new) = 0")
          case True
          then show ?thesis
            by (simp add: set_config_accepted [OF known rd])
        next
          case False
          then show ?thesis
            by (simp add: set_config_rejected [OF known rd])
        qed
      qed
    qed
  qed
  have ok: "knot_proxy_set_config env s i args = Some (s', True) \<longrightarrow>
        (\<exists>new. read_events (value_type (schema (proxy_pool s ! unat i))) (initial_locals env)
                 args = Some (Done new)
           \<and> event_flags (config (proxy_pool s' ! unat i)) = event_flags new
           \<and> time_sec (config (proxy_pool s' ! unat i)) = time_sec new
           \<and> upper_limit (config (proxy_pool s' ! unat i))
               = (if event_flags new AND KNOT_EVT_FLAG_UPPER_THRESHOLD \<noteq> 0
                  then upper_limit new else upper_limit (config (proxy_pool s ! unat i)))
           \<and> lower_limit (config (proxy_pool s' ! unat i))
               = (if event_flags new AND KNOT_EVT_FLAG_LOWER_THRESHOLD \<noteq> 0
                  then lower_limit new else lower_limit (config (proxy_pool s ! unat i))))"
  proof (cases "CONFIG_KNOT_THING_DATA_MAX s \<le> unat i \<or> id' (proxy_pool s ! unat i) \<noteq> i")
    case True
    then show ?thesis
      by (simp add: set_config_unknown)
  next
    case False
    then have known: "unat i < CONFIG_KNOT_THING_DATA_MAX s" "id' (proxy_pool s ! unat i) = i"
      by auto
    have len: "unat i < length (proxy_pool s)"
      using known(1) by (simp add: CONFIG_KNOT_THING_DATA_MAX_def)
    show ?thesis
    proof (cases "read_events (value_type (schema (proxy_pool s ! unat i)))
                    (initial_locals env) args")
      case None
      then show ?thesis
        by (simp add: set_config_undefined [OF known])
    next
      case (Some res)
      show ?thesis
      proof (cases res)
        case InvalidFlags
        then show ?thesis
          using Some by (simp add: set_config_invalid_flags [OF known])
      next
        case (Done new)
        then have rd: "read_events (value_type (schema (proxy_pool s ! unat i)))
                    (initial_locals env) args = Some (Done new)"
          using Some by simp
        show ?thesis
        proof (cases "knot_config_is_valid env (event_flags new)
             (value_type (schema (proxy_pool s ! unat i)))
             (time_sec new) (lower_limit new) (upper_limit new) = 0")
          case True
          show ?thesis
            unfolding set_config_accepted [OF known rd True]
            using len by (auto simp add: rd)
        next
          case False
          then show ?thesis
            by (simp add: set_config_rejected [OF known rd])
        qed
      qed
    qed
  qed
  show ?thesis
    using fail ok set_config_unknown [of s i env args]
      set_config_invalid_flags [of i s env args]
      set_config_rejected [of i s env args acc]
    by blast
qed



theorem config_replacement_atomic_witness:
  "knot_proxy_set_config example_env
     \<lparr>proxy_pool = [example_channel KNOT_VALUE_TYPE_INT KNOT_EVT_FLAG_CHANGE], last_id = 0\<rparr>
     1 [VaInt 1, VaInt 5, VaInt 0]
   = Some (\<lparr>proxy_pool = [example_channel KNOT_VALUE_TYPE_INT KNOT_EVT_FLAG_CHANGE],
            last_id = 0\<rparr>, False)
   \<and> knot_proxy_set_config example_env
     \<lparr>proxy_pool = [example_channel KNOT_VALUE_TYPE_INT KNOT_EVT_FLAG_CHANGE], last_id = 0\<rparr>
     0 [VaInt 1, VaInt 5, VaInt 3, VaInt 0]
   = Some (\<lparr>proxy_pool = [example_channel KNOT_VALUE_TYPE_INT KNOT_EVT_FLAG_CHANGE],
            last_id = 0\<rparr>, False)
   \<and> (\<exists>s'. knot_proxy_set_config example_env
          \<lparr>proxy_pool = [example_channel KNOT_VALUE_TYPE_INT KNOT_EVT_FLAG_CHANGE], last_id = 0\<rparr>
          0 [VaInt 1, VaInt 5, VaInt 4, VaInt 100000, VaInt 0] = Some (s', True)
        \<and> event_flags (config (proxy_pool s' ! unat (0 :: u8))) = 5
        \<and> time_sec (config (proxy_pool s' ! unat (0 :: u8))) = 5)"
proof -
  define S where "S = \<lparr>proxy_pool = [example_channel KNOT_VALUE_TYPE_INT KNOT_EVT_FLAG_CHANGE],
            last_id = (0 :: u8)\<rparr>"
  have size: "CONFIG_KNOT_THING_DATA_MAX S = 1"
    and ident: "id' (proxy_pool S ! unat (0 :: u8)) = 0"
    and kind: "value_type (schema (proxy_pool S ! unat (0 :: u8))) = KNOT_VALUE_TYPE_INT"
    unfolding S_def by (rule ex_slot)+
  have unknown: "knot_proxy_set_config example_env S 1 [VaInt 1, VaInt 5, VaInt 0]
      = Some (S, False)"
    using config_replacement_atomic [of example_env S 1 "[VaInt 1, VaInt 5, VaInt 0]"] size
    by simp
  have rd: "read_events (value_type (schema (proxy_pool S ! unat (0 :: u8))))
               (initial_locals example_env)
               [VaInt 1, VaInt 5, VaInt 3, VaInt 0] = Some InvalidFlags"
    unfolding kind by (simp add: flag_defs kind_defs)
  have invalid: "knot_proxy_set_config example_env S 0 [VaInt 1, VaInt 5, VaInt 3, VaInt 0]
      = Some (S, False)"
    using config_replacement_atomic [of example_env S 0 "[VaInt 1, VaInt 5, VaInt 3, VaInt 0]"]
      size ident rd
    by simp
  have rd2: "read_events (value_type (schema (proxy_pool S ! unat (0 :: u8))))
               (initial_locals example_env)
               [VaInt 1, VaInt 5, VaInt 4, VaInt 100000, VaInt 0]
      = Some (Done ((initial_locals example_env)
             \<lparr>time_sec := 5,
              upper_limit := set_val_i 100000 (upper_limit (initial_locals example_env)),
              event_flags := 5\<rparr>))"
    unfolding kind by (rule ex_rd2)
  have valid: "knot_config_is_valid example_env a b c d e = 0" for a b c d e
    by (simp add: example_env_def)
  have inr: "unat (0 :: u8) < CONFIG_KNOT_THING_DATA_MAX S"
    using size by simp
  obtain s' where call: "knot_proxy_set_config example_env S 0
          [VaInt 1, VaInt 5, VaInt 4, VaInt 100000, VaInt 0] = Some (s', True)"
    using set_config_accepted [OF inr ident rd2 valid] by blast
  obtain new where new: "read_events (value_type (schema (proxy_pool S ! unat (0 :: u8))))
               (initial_locals example_env)
               [VaInt 1, VaInt 5, VaInt 4, VaInt 100000, VaInt 0] = Some (Done new)"
      and fl: "event_flags (config (proxy_pool s' ! unat (0 :: u8))) = event_flags new"
      and ts: "time_sec (config (proxy_pool s' ! unat (0 :: u8))) = time_sec new"
    using config_replacement_atomic [of example_env S 0
        "[VaInt 1, VaInt 5, VaInt 4, VaInt 100000, VaInt 0]" s'] call
    by blast
  have "new = (initial_locals example_env)
             \<lparr>time_sec := 5,
              upper_limit := set_val_i 100000 (upper_limit (initial_locals example_env)),
              event_flags := 5\<rparr>"
    using new rd2 by simp
  then have "event_flags new = 5" and "time_sec new = 5"
    by simp_all
  then have "event_flags (config (proxy_pool s' ! unat (0 :: u8))) = 5"
    and "time_sec (config (proxy_pool s' ! unat (0 :: u8))) = 5"
    using fl ts by simp_all
  then show ?thesis
    using unknown invalid call unfolding S_def by blast
qed

section \<open>Claim C8\<close>

lemma timer_set_basic:
  assumes only_timer: "event_flags (config p) = KNOT_EVT_FLAG_TIME"
      and not_forced: "\<not> send p"
      and kind: "value_type (schema p) \<in> {KNOT_VALUE_TYPE_BOOL, KNOT_VALUE_TYPE_INT, KNOT_VALUE_TYPE_FLOAT}"
      and mem: "4 \<le> length mem"
  shows "\<exists>p'. knot_proxy_value_set_basic t (Some p) mem
            = Some (Some p', unat (time_sec (config p)) * 1000 \<le> unat (ucast t - last_timeout p))
          \<and> last_timeout p' = (if unat (time_sec (config p)) * 1000 \<le> unat (ucast t - last_timeout p)
                                then ucast t else last_timeout p)
          \<and> send p' = (unat (time_sec (config p)) * 1000 \<le> unat (ucast t - last_timeout p) \<and> wait_resp p)"
proof -
  obtain b rest where m: "mem = b # rest"
    using mem by (cases mem) auto
  have l32: "load_32 mem = Some (le_word (take 4 mem))"
    using mem by (simp add: load_32_def)
  have lb: "load_bool mem = Some (b \<noteq> 0)"
    by (simp add: load_bool_def m)
  show ?thesis
    using kind only_timer not_forced
    by (auto simp add: knot_proxy_value_set_basic_def check_timeout_eq flag_defs l32 lb
        check_defs Let_def kind_defs)
qed

lemma timer_set_string:
  assumes only_timer: "event_flags (config p) = KNOT_EVT_FLAG_TIME"
      and not_forced: "\<not> send p"
      and kind: "value_type (schema p) = KNOT_VALUE_TYPE_RAW"
      and len: "0 \<le> len"
      and src: "nat (min (int (KNOT_DATA_RAW_SIZE env)) len) \<le> length mem"
      and dst: "nat (min (int (KNOT_DATA_RAW_SIZE env)) len) \<le> length (value' p)"
  shows "\<exists>p'. knot_proxy_value_set_string env t (Some p) mem len
            = Some (Some p', unat (time_sec (config p)) * 1000 \<le> unat (ucast t - last_timeout p))
          \<and> last_timeout p' = (if unat (time_sec (config p)) * 1000 \<le> unat (ucast t - last_timeout p)
                                then ucast t else last_timeout p)
          \<and> send p' = (unat (time_sec (config p)) * 1000 \<le> unat (ucast t - last_timeout p) \<and> wait_resp p)"
proof -
  have nonneg: "\<not> min (int (KNOT_DATA_RAW_SIZE env)) len < 0"
    using len by simp
  show ?thesis
    using kind only_timer not_forced src dst nonneg
    by (auto simp add: knot_proxy_value_set_string_def check_timeout_eq flag_defs
        check_raw_change_def Let_def)
qed

text \<open>
  Claim C8 (timer periodicity). On a channel whose only flag is OnTimer, with period
  \<open>time_sec\<close> seconds and with no send forced, the timeout condition is true exactly
  when the elapsed time \<open>current_time - last_timeout\<close> (the u32 difference, in
  milliseconds) is at least \<open>time_sec * 1000\<close>; \<open>check_timeout\<close> then rebases
  \<open>last_timeout\<close> to the current time and otherwise leaves the channel as it is. A set
  call (\<open>knot_proxy_value_set_basic\<close> on a Bool, Int32 or Float32 channel,
  \<open>knot_proxy_value_set_string\<close> on a Raw channel) returns, and returns true exactly
  when the timeout is due, whatever the candidate value is; \<open>last_timeout\<close> is rebased
  exactly then, and the channel stays pending only if \<open>wait_resp\<close> is set.
\<close>

theorem timer_periodicity:
  assumes only_timer: "event_flags (config p) = KNOT_EVT_FLAG_TIME"
      and not_forced: "\<not> send p"
  shows
    "check_timeout t p =
       (if unat (time_sec (config p)) * 1000 \<le> unat (ucast t - last_timeout p)
        then (p\<lparr>last_timeout := ucast t\<rparr>, True) else (p, False))
     \<and> (value_type (schema p) \<in> {KNOT_VALUE_TYPE_BOOL, KNOT_VALUE_TYPE_INT, KNOT_VALUE_TYPE_FLOAT}
          \<and> 4 \<le> length mem \<longrightarrow>
        (\<exists>p'. knot_proxy_value_set_basic t (Some p) mem
            = Some (Some p', unat (time_sec (config p)) * 1000 \<le> unat (ucast t - last_timeout p))
          \<and> last_timeout p' = (if unat (time_sec (config p)) * 1000 \<le> unat (ucast t - last_timeout p)
                                then ucast t else last_timeout p)
          \<and> send p' = (unat (time_sec (config p)) * 1000 \<le> unat (ucast t - last_timeout p) \<and> wait_resp p)))
     \<and> (value_type (schema p) = KNOT_VALUE_TYPE_RAW \<and> 0 \<le> len
          \<and> nat (min (int (KNOT_DATA_RAW_SIZE env)) len) \<le> length raw
          \<and> nat (min (int (KNOT_DATA_RAW_SIZE env)) len) \<le> length (value' p) \<longrightarrow>
        (\<exists>p'. knot_proxy_value_set_string env t (Some p) raw len
            = Some (Some p', unat (time_sec (config p)) * 1000 \<le> unat (ucast t - last_timeout p))
          \<and> last_timeout p' = (if unat (time_sec (config p)) * 1000 \<le> unat (ucast t - last_timeout p)
                                then ucast t else last_timeout p)
          \<and> send p' = (unat (time_sec (config p)) * 1000 \<le> unat (ucast t - last_timeout p) \<and> wait_resp p)))"
proof (intro conjI impI)
  show "check_timeout t p =
       (if unat (time_sec (config p)) * 1000 \<le> unat (ucast t - last_timeout p)
        then (p\<lparr>last_timeout := ucast t\<rparr>, True) else (p, False))"
    using only_timer by (simp add: check_timeout_eq flag_defs)
next
  assume "value_type (schema p) \<in> {KNOT_VALUE_TYPE_BOOL, KNOT_VALUE_TYPE_INT, KNOT_VALUE_TYPE_FLOAT}
          \<and> 4 \<le> length mem"
  then show "\<exists>p'. knot_proxy_value_set_basic t (Some p) mem
            = Some (Some p', unat (time_sec (config p)) * 1000 \<le> unat (ucast t - last_timeout p))
          \<and> last_timeout p' = (if unat (time_sec (config p)) * 1000 \<le> unat (ucast t - last_timeout p)
                                then ucast t else last_timeout p)
          \<and> send p' = (unat (time_sec (config p)) * 1000 \<le> unat (ucast t - last_timeout p) \<and> wait_resp p)"
    using timer_set_basic [OF only_timer not_forced] by blast
next
  assume "value_type (schema p) = KNOT_VALUE_TYPE_RAW \<and> 0 \<le> len
          \<and> nat (min (int (KNOT_DATA_RAW_SIZE env)) len) \<le> length raw
          \<and> nat (min (int (KNOT_DATA_RAW_SIZE env)) len) \<le> length (value' p)"
  then show "\<exists>p'. knot_proxy_value_set_string env t (Some p) raw len
            = Some (Some p', unat (time_sec (config p)) * 1000 \<le> unat (ucast t - last_timeout p))
          \<and> last_timeout p' = (if unat (time_sec (config p)) * 1000 \<le> unat (ucast t - last_timeout p)
                                then ucast t else last_timeout p)
          \<and> send p' = (unat (time_sec (config p)) * 1000 \<le> unat (ucast t - last_timeout p) \<and> wait_resp p)"
    using timer_set_string [OF only_timer not_forced] by blast
qed

theorem timer_periodicity_witness:
  "event_flags (config (timer_channel KNOT_VALUE_TYPE_INT 5)) = KNOT_EVT_FLAG_TIME
   \<and> \<not> send (timer_channel KNOT_VALUE_TYPE_INT 5)
   \<and> check_timeout 4999 (timer_channel KNOT_VALUE_TYPE_INT 5)
       = (timer_channel KNOT_VALUE_TYPE_INT 5, False)
   \<and> check_timeout 5000 (timer_channel KNOT_VALUE_TYPE_INT 5)
       = ((timer_channel KNOT_VALUE_TYPE_INT 5)\<lparr>last_timeout := 5000\<rparr>, True)
   \<and> set_basic_results (timer_channel KNOT_VALUE_TYPE_INT 5)
        [(1000, [0, 0, 0, 0]), (5000, [0, 0, 0, 0]), (6000, [0, 0, 0, 0]),
         (9999, [0, 0, 0, 0]), (10000, [0, 0, 0, 0]), (10001, [0, 0, 0, 0])]
       = Some [False, True, False, False, True, False]"
proof -
  have flags: "event_flags (config (timer_channel KNOT_VALUE_TYPE_INT 5)) = KNOT_EVT_FLAG_TIME"
    by (simp add: example_defs)
  have idle: "\<not> send (timer_channel KNOT_VALUE_TYPE_INT 5)"
    by (simp add: example_defs)
  have early: "check_timeout 4999 (timer_channel KNOT_VALUE_TYPE_INT 5)
       = (timer_channel KNOT_VALUE_TYPE_INT 5, False)"
    using timer_periodicity [OF flags idle, of 4999] by (simp add: example_defs)
  have due: "check_timeout 5000 (timer_channel KNOT_VALUE_TYPE_INT 5)
       = ((timer_channel KNOT_VALUE_TYPE_INT 5)\<lparr>last_timeout := 5000\<rparr>, True)"
    using timer_periodicity [OF flags idle, of 5000] by (simp add: example_defs)
  have run: "set_basic_results (timer_channel KNOT_VALUE_TYPE_INT 5)
        [(1000, [0, 0, 0, 0]), (5000, [0, 0, 0, 0]), (6000, [0, 0, 0, 0]),
         (9999, [0, 0, 0, 0]), (10000, [0, 0, 0, 0]), (10001, [0, 0, 0, 0])]
       = Some [False, True, False, False, True, False]"
    by (simp add: knot_proxy_value_set_basic_def example_defs flag_defs kind_defs check_defs
      check_timeout_def load_32_def set_val_i_def le_bytes_def val_i_def)
  show ?thesis
    using flags idle early due run by simp
qed

section \<open>Claim C9\<close>

text \<open>
  Claim C9 (deliver on an identifier that was never registered fails with an error).
  The only range check of \<open>proxy_write\<close> is \<open>id > last_id\<close>, and \<open>last_id\<close> is \<open>0xff\<close>
  until the first registration, so the check rejects no u8 then: right after initialisation of a table
  of three slots, a delivery for identifier 200 indexes \<open>proxy_pool[200]\<close>, outside the
  array, where the behaviour is undefined.
\<close>

theorem proxy_write_before_registration_out_of_bounds:
  "last_id (proxy_init example_env (static_storage example_env 3)) = 0xff
   \<and> CONFIG_KNOT_THING_DATA_MAX (proxy_init example_env (static_storage example_env 3)) = 3
   \<and> proxy_write (\<lambda>cb p. p) (proxy_init example_env (static_storage example_env 3))
        200 (replicate 16 0) 0 = None"
  by (simp add: proxy_write_def CONFIG_KNOT_THING_DATA_MAX_def proxy_init_def static_storage_def)

section \<open>Claim C10\<close>

lemma registered_ids_set:
  "set (registered_ids s)
     = {i. \<exists>k < length (proxy_pool s). id' (proxy_pool s ! k) = i \<and> i \<noteq> 0xff}"
  by (auto simp add: registered_ids_def in_set_conv_nth intro: imageI nth_mem)

lemma registered_ids_init: "registered_ids (proxy_init env (static_storage env n)) = []"
  by (simp add: registered_ids_def proxy_init_def static_storage_def filter_empty_conv)

lemma last_id_inv_init: "n \<le> 255 \<Longrightarrow> last_id_inv (proxy_init env (static_storage env n))"
  by (simp add: last_id_inv_def registered_ids_init) (simp add: proxy_init_def static_storage_def)

lemma small_index_not_sentinel:
  assumes "unat (i :: u8) < n" and "n \<le> 255"
  shows "i \<noteq> 0xff"
proof
  assume "i = 0xff"
  then have "unat i = 255" by simp
  then show False using assms by simp
qed

lemma register_ids:
  assumes reg: "knot_proxy_register env s i nm tid vt un ccb pcb = Inr s'"
      and small: "length (proxy_pool s) \<le> 255"
  shows "set (registered_ids s') = insert i (set (registered_ids s))
         \<and> length (proxy_pool s') = length (proxy_pool s)
         \<and> last_id s' = (if last_id s < i \<or> last_id s = 0xff then i else last_id s)
         \<and> i \<noteq> 0xff"
proof -
  have inr: "unat i < CONFIG_KNOT_THING_DATA_MAX s"
    using reg register_failures(1) [of s i env nm tid vt un ccb pcb] by (cases "CONFIG_KNOT_THING_DATA_MAX s \<le> unat i") auto
  have free: "id' (proxy_pool s ! unat i) = 0xff"
    using reg inr register_failures(2) [of i s env nm tid vt un ccb pcb] by (cases "id' (proxy_pool s ! unat i) = 0xff") auto
  have ok: "knot_schema_is_valid env tid vt un = 0 \<and> nm \<noteq> None"
    using reg inr free register_failures(3) [of i s env tid vt un nm ccb pcb]
    by (cases "knot_schema_is_valid env tid vt un \<noteq> 0 \<or> nm = None") auto
  then obtain n where nm: "nm = Some n" and valid: "knot_schema_is_valid env tid vt un = 0"
    by auto
  have len: "unat i < length (proxy_pool s)"
    using inr by (simp add: CONFIG_KNOT_THING_DATA_MAX_def)
  have ne: "i \<noteq> 0xff"
    using small_index_not_sentinel [OF len small] .
  note eq = reg [unfolded register_success [OF inr free valid nm]]
  have pool': "proxy_pool s' = (proxy_pool s)
               [unat i := (proxy_pool s ! unat i)
                  \<lparr>id' := i,
                   schema := \<lparr>type_id = tid, unit' = un, value_type = vt,
                              name = take (min (KNOT_PROTOCOL_DATA_NAME_LEN env) (length n)) n
                                     @ drop (min (KNOT_PROTOCOL_DATA_NAME_LEN env) (length n))
                                         (name (schema (proxy_pool s ! unat i)))\<rparr>,
                   send := False, upper_flag := False, lower_flag := False, olen := 0,
                   config := (config (proxy_pool s ! unat i))
                               \<lparr>event_flags := KNOT_EVT_FLAG_NONE\<rparr>,
                   poll_cb := pcb, changed_cb := ccb\<rparr>]"
    and last': "last_id s' = (if last_id s < i \<or> last_id s = 0xff then i else last_id s)"
    using eq by auto
  have ids: "id' (proxy_pool s' ! k) = (if k = unat i then i else id' (proxy_pool s ! k))"
    if "k < length (proxy_pool s)" for k
    using that by (simp add: pool' nth_list_update)
  have "set (registered_ids s') = insert i (set (registered_ids s))"
    unfolding registered_ids_set
  proof (intro set_eqI iffI)
    fix x
    assume "x \<in> {i. \<exists>k<length (proxy_pool s'). id' (proxy_pool s' ! k) = i \<and> i \<noteq> 255}"
    then obtain k where k: "k < length (proxy_pool s)" "id' (proxy_pool s' ! k) = x" "x \<noteq> 255"
      by (auto simp add: pool')
    show "x \<in> insert i {i. \<exists>k<length (proxy_pool s). id' (proxy_pool s ! k) = i \<and> i \<noteq> 255}"
      using k ids [OF k(1)] by (cases "k = unat i") auto
  next
    fix x
    assume "x \<in> insert i {i. \<exists>k<length (proxy_pool s). id' (proxy_pool s ! k) = i \<and> i \<noteq> 255}"
    then consider "x = i" | k where "k < length (proxy_pool s)" "id' (proxy_pool s ! k) = x" "x \<noteq> 255"
      by auto
    then show "x \<in> {i. \<exists>k<length (proxy_pool s'). id' (proxy_pool s' ! k) = i \<and> i \<noteq> 255}"
    proof cases
      case 1
      have "unat i < length (proxy_pool s')" using len by (simp add: pool')
      moreover have "id' (proxy_pool s' ! unat i) = i" using ids [OF len] by simp
      ultimately show ?thesis using 1 ne by auto
    next
      case 2
      have "k \<noteq> unat i" using 2 free by auto
      then have "id' (proxy_pool s' ! k) = x" using ids [OF 2(1)] 2(2) by simp
      moreover have "k < length (proxy_pool s')" using 2(1) by (simp add: pool')
      ultimately show ?thesis using 2(3) by auto
    qed
  qed
  moreover have "length (proxy_pool s') = length (proxy_pool s)"
    by (simp add: pool')
  ultimately show ?thesis
    using last' ne by simp
qed


lemma registered_ne_sentinel: "x \<in> set (registered_ids s) \<Longrightarrow> x \<noteq> 0xff"
  by (simp add: registered_ids_def)

lemma register_inv:
  assumes reg: "knot_proxy_register env s i nm tid vt un ccb pcb = Inr s'"
      and inv: "last_id_inv s"
  shows "last_id_inv s' \<and> set (registered_ids s') = insert i (set (registered_ids s))"
proof -
  have small: "length (proxy_pool s) \<le> 255"
    using inv by (simp add: last_id_inv_def)
  note r = register_ids [OF reg small]
  have ids: "set (registered_ids s') = insert i (set (registered_ids s))"
    using r by simp
  then have ne': "registered_ids s' \<noteq> []"
    by auto
  have "last_id s' = Max (set (registered_ids s'))"
  proof (cases "registered_ids s = []")
    case True
    then have "last_id s = 0xff"
      using inv by (simp add: last_id_inv_def)
    then have "last_id s' = i"
      using r by simp
    then show ?thesis
      using ids True by simp
  next
    case False
    then have l: "last_id s = Max (set (registered_ids s))"
      using inv by (simp add: last_id_inv_def)
    have "Max (set (registered_ids s)) \<in> set (registered_ids s)"
      using False by (intro Max_in) auto
    then have "last_id s \<noteq> 0xff"
      using l registered_ne_sentinel by metis
    then have "last_id s' = max i (last_id s)"
      using r by (auto simp add: max_def)
    also have "\<dots> = Max (insert i (set (registered_ids s)))"
      using False l by (simp add: Max_insert)
    finally show ?thesis
      using ids by simp
  qed
  then show ?thesis
    using ne' ids r small by (simp add: last_id_inv_def)
qed

lemma register_all_inv:
  "last_id_inv s \<Longrightarrow>
     last_id_inv (fst (register_all env s calls))
     \<and> set (registered_ids (fst (register_all env s calls)))
         = set (registered_ids s) \<union> set (snd (register_all env s calls))"
proof (induction env s calls rule: register_all.induct)
  case (1 env s)
  then show ?case by simp
next
  case (2 env s ident name_ptr tid vtype un changed poll calls)
  show ?case
  proof (cases "knot_proxy_register env s ident name_ptr tid vtype un changed poll")
    case (Inl e)
    then show ?thesis
      using 2 by simp
  next
    case (Inr s1)
    have step: "last_id_inv s1 \<and> set (registered_ids s1) = insert ident (set (registered_ids s))"
      using register_inv [OF Inr "2.prems"] .
    then have ih: "last_id_inv (fst (register_all env s1 calls))
       \<and> set (registered_ids (fst (register_all env s1 calls)))
           = set (registered_ids s1) \<union> set (snd (register_all env s1 calls))"
      using "2.IH"(2) [OF Inr] by simp
    show ?thesis
      using ih step Inr by (auto simp add: split_beta)
  qed
qed

lemma register_all_append:
  "register_all env s (calls @ rest)
     = (fst (register_all env (fst (register_all env s calls)) rest),
        snd (register_all env s calls)
          @ snd (register_all env (fst (register_all env s calls)) rest))"
proof (induction env s calls rule: register_all.induct)
  case (1 env s)
  then show ?case by simp
next
  case (2 env s ident name_ptr tid vtype un changed poll calls)
  then show ?case
    by (cases "knot_proxy_register env s ident name_ptr tid vtype un changed poll")
       (simp_all add: split_beta)
qed


text \<open>
  Claim C10 (the highest-registered-id query). The table is initialised with
  \<open>proxy_init\<close> from the static storage, where \<open>last_id\<close> starts as \<open>0xff\<close>, and
  has at most 255 slots, so that the sentinel is no slot's index. Then
  \<open>proxy_get_last_id\<close> returns the sentinel after initialisation and after any
  sequence of registration calls of which none succeeded, and otherwise the greatest
  identifier among the calls that succeeded. The identifiers that succeeded are exactly
  those of the occupied slots, every occupied slot's identifier is at most the value
  returned, and once a registration has succeeded further calls never lower it.
\<close>

theorem last_id_is_greatest_registered:
  assumes small: "n \<le> 255"
  shows
    "proxy_get_last_id (proxy_init env (static_storage env n)) = 0xff
     \<and> proxy_get_last_id (fst (register_all env (proxy_init env (static_storage env n)) calls))
         = (if snd (register_all env (proxy_init env (static_storage env n)) calls) = []
            then 0xff
            else Max (set (snd (register_all env (proxy_init env (static_storage env n)) calls))))
     \<and> set (registered_ids (fst (register_all env (proxy_init env (static_storage env n)) calls)))
         = set (snd (register_all env (proxy_init env (static_storage env n)) calls))
     \<and> (\<forall>p \<in> set (proxy_pool (fst (register_all env (proxy_init env (static_storage env n))
                                      calls))).
           id' p \<noteq> 0xff \<longrightarrow>
           id' p \<le> proxy_get_last_id
                      (fst (register_all env (proxy_init env (static_storage env n)) calls)))
     \<and> (snd (register_all env (proxy_init env (static_storage env n)) calls) \<noteq> [] \<longrightarrow>
          proxy_get_last_id (fst (register_all env (proxy_init env (static_storage env n)) calls))
          \<le> proxy_get_last_id
               (fst (register_all env (proxy_init env (static_storage env n)) (calls @ rest))))"
proof -
  define s0 where "s0 = proxy_init env (static_storage env n)"
  define s1 where "s1 = fst (register_all env s0 calls)"
  define ok1 where "ok1 = snd (register_all env s0 calls)"
  define s2 where "s2 = fst (register_all env s1 rest)"
  define ok2 where "ok2 = snd (register_all env s1 rest)"
  have inv0: "last_id_inv s0"
    unfolding s0_def using small by (rule last_id_inv_init)
  have none0: "registered_ids s0 = []"
    unfolding s0_def by (rule registered_ids_init)
  have first: "proxy_get_last_id s0 = 0xff"
    using inv0 none0 by (simp add: last_id_inv_def proxy_get_last_id_def)
  have inv1: "last_id_inv s1" and ids1: "set (registered_ids s1) = set ok1"
    using register_all_inv [OF inv0, of env calls] none0 by (simp_all add: s1_def ok1_def)
  have empty1: "registered_ids s1 = [] \<longleftrightarrow> ok1 = []"
    using ids1 by (metis set_empty)
  have last1: "proxy_get_last_id s1 = (if ok1 = [] then 0xff else Max (set ok1))"
    using inv1 ids1 empty1 by (simp add: last_id_inv_def proxy_get_last_id_def)
  have bound1: "\<forall>p \<in> set (proxy_pool s1). id' p \<noteq> 0xff \<longrightarrow> id' p \<le> proxy_get_last_id s1"
  proof (intro ballI impI)
    fix p
    assume p: "p \<in> set (proxy_pool s1)" and reg: "id' p \<noteq> 0xff"
    then have mem: "id' p \<in> set ok1"
      using ids1 by (auto simp add: registered_ids_def)
    then have "ok1 \<noteq> []" by auto
    moreover have "id' p \<le> Max (set ok1)"
      using mem by (intro Max_ge) auto
    ultimately show "id' p \<le> proxy_get_last_id s1"
      using last1 by simp
  qed
  have app: "register_all env s0 (calls @ rest) = (s2, ok1 @ ok2)"
    unfolding register_all_append s1_def ok1_def s2_def ok2_def by simp
  have inv2: "last_id_inv s2" and ids2: "set (registered_ids s2) = set ok1 \<union> set ok2"
    using register_all_inv [OF inv1, of env rest] ids1 by (simp_all add: s2_def ok2_def)
  have mono: "ok1 \<noteq> [] \<longrightarrow> proxy_get_last_id s1 \<le> proxy_get_last_id s2"
  proof
    assume ne: "ok1 \<noteq> []"
    then have ne2: "registered_ids s2 \<noteq> []"
      using ids2 by (metis Un_empty set_empty)
    have "Max (set ok1) \<le> Max (set ok1 \<union> set ok2)"
      using ne by (intro Max_mono) auto
    then show "proxy_get_last_id s1 \<le> proxy_get_last_id s2"
      using last1 ne inv2 ne2 ids2 by (simp add: last_id_inv_def proxy_get_last_id_def)
  qed
  have s2': "fst (register_all env s0 (calls @ rest)) = s2"
    using app by simp
  show ?thesis
    using first last1 ids1 bound1 mono
    unfolding s2' [symmetric] s1_def ok1_def s0_def
    by blast
qed


theorem last_id_is_greatest_registered_witness:
  "(3 :: nat) \<le> 255
   \<and> snd (register_all example_env (proxy_init example_env (static_storage example_env 3))
        [(1, Some ''LED'', 0, KNOT_VALUE_TYPE_BOOL, 0, None, None),
         (0, Some ''THERMO'', 0, KNOT_VALUE_TYPE_INT, 0, None, None),
         (1, Some ''AGAIN'', 0, KNOT_VALUE_TYPE_INT, 0, None, None),
         (7, Some ''FAR'', 0, KNOT_VALUE_TYPE_INT, 0, None, None)]) = [1, 0]
   \<and> proxy_get_last_id
        (fst (register_all example_env (proxy_init example_env (static_storage example_env 3))
          [(1, Some ''LED'', 0, KNOT_VALUE_TYPE_BOOL, 0, None, None),
           (0, Some ''THERMO'', 0, KNOT_VALUE_TYPE_INT, 0, None, None),
           (1, Some ''AGAIN'', 0, KNOT_VALUE_TYPE_INT, 0, None, None),
           (7, Some ''FAR'', 0, KNOT_VALUE_TYPE_INT, 0, None, None)])) = 1"
proof -
  have small: "(3 :: nat) \<le> 255"
    by simp
  have ok: "snd (register_all example_env (proxy_init example_env (static_storage example_env 3))
        [(1, Some ''LED'', 0, KNOT_VALUE_TYPE_BOOL, 0, None, None),
         (0, Some ''THERMO'', 0, KNOT_VALUE_TYPE_INT, 0, None, None),
         (1, Some ''AGAIN'', 0, KNOT_VALUE_TYPE_INT, 0, None, None),
         (7, Some ''FAR'', 0, KNOT_VALUE_TYPE_INT, 0, None, None)]) = [1, 0]"
    by (simp add: knot_proxy_register_def proxy_init_def static_storage_def
      CONFIG_KNOT_THING_DATA_MAX_def example_env_def Let_def split_beta)
  show ?thesis
    using small ok
      last_id_is_greatest_registered [OF small, of example_env
        "[(1, Some ''LED'', 0, KNOT_VALUE_TYPE_BOOL, 0, None, None),
         (0, Some ''THERMO'', 0, KNOT_VALUE_TYPE_INT, 0, None, None),
         (1, Some ''AGAIN'', 0, KNOT_VALUE_TYPE_INT, 0, None, None),
         (7, Some ''FAR'', 0, KNOT_VALUE_TYPE_INT, 0, None, None)]"]
    by simp
qed

end
